theory Spec2Isabelle
  imports Main
begin

section \<open>Values of a configuration document\<close>

text \<open>
  The configuration document is what \<^verbatim>\<open>yaml.safe_load\<close> or \<^verbatim>\<open>json.load\<close> returns: nested
  Python values. Dictionaries keep their insertion order (the installer iterates over the
  keys), so a dictionary is an association list; its keys are strings, as in every
  document the module documents. Floats do not occur in the keys the module reads and are
  left out.
\<close>

datatype pyval =
    PNone
  | PBool bool
  | PInt int
  | PStr string
  | PList "pyval list"
  | PDict "(string \<times> pyval) list"

type_synonym pydict = "(string \<times> pyval) list"

text \<open>Python truthiness, as used by \<^verbatim>\<open>assert v\<close> and \<^verbatim>\<open>if v\<close>.\<close>

fun truthy :: "pyval \<Rightarrow> bool" where
  "truthy PNone = False"
| "truthy (PBool b) = b"
| "truthy (PInt i) = (i \<noteq> 0)"
| "truthy (PStr s) = (s \<noteq> [])"
| "truthy (PList xs) = (xs \<noteq> [])"
| "truthy (PDict d) = (d \<noteq> [])"

text \<open>\<^verbatim>\<open>k in d\<close>, \<^verbatim>\<open>d.get(k, default)\<close>, \<^verbatim>\<open>d.get(k)\<close>, \<^verbatim>\<open>d[k] = v\<close> (an existing key keeps its
  position, a new key goes to the end) and the removal done by \<^verbatim>\<open>d.pop(k)\<close>.\<close>

definition has_key :: "pydict \<Rightarrow> string \<Rightarrow> bool" where
  "has_key d k = (map_of d k \<noteq> None)"

definition get_default :: "pydict \<Rightarrow> string \<Rightarrow> pyval \<Rightarrow> pyval" where
  "get_default d k dflt = (case map_of d k of None \<Rightarrow> dflt | Some v \<Rightarrow> v)"

definition get :: "pydict \<Rightarrow> string \<Rightarrow> pyval" where
  "get d k = get_default d k PNone"

fun dict_set :: "string \<Rightarrow> pyval \<Rightarrow> pydict \<Rightarrow> pydict" where
  "dict_set k v [] = [(k, v)]"
| "dict_set k v ((k', v') # d) =
     (if k' = k then (k, v) # d else (k', v') # dict_set k v d)"

definition dict_del :: "string \<Rightarrow> pydict \<Rightarrow> pydict" where
  "dict_del k d = filter (\<lambda>kv. fst kv \<noteq> k) d"

definition startswith :: "string \<Rightarrow> string \<Rightarrow> bool" where
  "startswith s p = (take (length p) s = p)"

section \<open>Exceptions\<close>

text \<open>
  Every \<^verbatim>\<open>raise\<close> and failing \<^verbatim>\<open>assert\<close> of the source is a value. \<open>AssertionError\<close> carries
  the message of the \<^verbatim>\<open>assert\<close> (empty when it has none). \<open>PipInstallFailed cmd out\<close> is
  \<^verbatim>\<open>Exception(f"pip install failed: {pip_cmd}", run_pip.stdout)\<close>: its two arguments are kept
  apart, the command as the list it is formatted from.
\<close>

datatype exn =
    AssertionError string
  | ValueError string
  | AttributeError
  | TypeError
  | KeyError string
  | RuntimeError string
  | PyException string
  | PipInstallFailed "string list" string

section \<open>Paths\<close>

text \<open>
  \<^verbatim>\<open>pathlib.Path\<close> on a POSIX system: a root (\<^verbatim>\<open>""\<close>, \<^verbatim>\<open>"/"\<close> or \<^verbatim>\<open>"//"\<close>) and the list of
  components, with empty components and \<^verbatim>\<open>"."\<close> dropped when the path is built from a string.
  Two paths are equal when root and components are.
\<close>

datatype path = Path (proot: string) (pparts: "string list")

fun split_slash :: "string \<Rightarrow> string list" where
  "split_slash [] = [[]]"
| "split_slash (c # cs) =
     (if c = CHR ''/'' then [] # split_slash cs
      else (case split_slash cs of [] \<Rightarrow> [[c]] | w # ws \<Rightarrow> (c # w) # ws))"

definition path_root :: "string \<Rightarrow> string" where
  "path_root s =
     (if take 1 s = ''/''
      then (if take 2 s = ''//'' \<and> take 3 s \<noteq> ''///'' then ''//'' else ''/'')
      else [])"

definition mk_path :: "string \<Rightarrow> path" where
  "mk_path s = Path (path_root s) (filter (\<lambda>w. w \<noteq> [] \<and> w \<noteq> ''.'') (split_slash s))"

fun join_slash :: "string list \<Rightarrow> string" where
  "join_slash [] = []"
| "join_slash [w] = w"
| "join_slash (w # ws) = w @ ''/'' @ join_slash ws"

text \<open>\<^verbatim>\<open>str(p)\<close>.\<close>

definition path_str :: "path \<Rightarrow> string" where
  "path_str p =
     (if proot p = [] \<and> pparts p = [] then ''.'' else proot p @ join_slash (pparts p))"

text \<open>\<^verbatim>\<open>p / q\<close>: an absolute right operand replaces the left one.\<close>

definition path_join :: "path \<Rightarrow> path \<Rightarrow> path" where
  "path_join p q = (if proot q \<noteq> [] then q else Path (proot p) (pparts p @ pparts q))"

text \<open>\<^verbatim>\<open>p.absolute()\<close>, with the current working directory \<open>cwd\<close> (an absolute path).\<close>

definition path_absolute :: "path \<Rightarrow> path \<Rightarrow> path" where
  "path_absolute cwd p = (if proot p \<noteq> [] then p else path_join cwd p)"

definition path_parent :: "path \<Rightarrow> path" where
  "path_parent p = Path (proot p) (butlast (pparts p))"

definition path_name :: "path \<Rightarrow> string" where
  "path_name p = (if pparts p = [] then [] else last (pparts p))"

text \<open>
  \<^verbatim>\<open>p.suffix\<close> and \<^verbatim>\<open>p.stem\<close>: with \<^verbatim>\<open>i = name.rfind('.')\<close>, the name is cut at \<open>i\<close> when
  \<^verbatim>\<open>0 < i < len(name) - 1\<close>. \<open>after_dot\<close> is the text after the last dot.
\<close>

definition after_dot :: "string \<Rightarrow> string" where
  "after_dot name = rev (takeWhile (\<lambda>c. c \<noteq> CHR ''.'') (rev name))"

definition has_suffix :: "string \<Rightarrow> bool" where
  "has_suffix name =
     (CHR ''.'' \<in> set name \<and> after_dot name \<noteq> [] \<and> length (after_dot name) + 1 < length name)"

definition path_suffix :: "path \<Rightarrow> string" where
  "path_suffix p =
     (let name = path_name p in if has_suffix name then CHR ''.'' # after_dot name else [])"

definition path_stem :: "path \<Rightarrow> string" where
  "path_stem p =
     (let name = path_name p
      in if has_suffix name then take (length name - length (after_dot name) - 1) name else name)"

text \<open>\<^verbatim>\<open>Path(v)\<close> and \<^verbatim>\<open>p / v\<close> raise \<^verbatim>\<open>TypeError\<close> unless \<open>v\<close> is a string.\<close>

definition as_path :: "pyval \<Rightarrow> exn + path" where
  "as_path v = (case v of PStr s \<Rightarrow> Inr (mk_path s) | _ \<Rightarrow> Inl TypeError)"

definition path_join_val :: "path \<Rightarrow> pyval \<Rightarrow> exn + path" where
  "path_join_val p v = (case as_path v of Inl e \<Rightarrow> Inl e | Inr q \<Rightarrow> Inr (path_join p q))"

section \<open>The normalizer\<close>

definition reserved_prefix :: string where
  "reserved_prefix = ''cpd_software_env''"

definition quote :: string where
  "quote = [CHR 0x27]"

definition conflict_msg_file :: string where
  "conflict_msg_file =
     ''Error: you can use either key 'file' or 'files' but not both together.''"

definition conflict_msg_asset :: string where
  "conflict_msg_asset =
     ''Error: you can use either key 'asset' or 'assets' but not both together.''"

text \<open>
  One singular/plural pair of \<^verbatim>\<open>_normalize_swenv\<close>:
  \<^verbatim>\<open>if sing in swenv: if plur in swenv: print(msg); assert False
                     swenv[plur] = swenv.pop(sing)\<close>.
  The result is the list of lines printed to standard output and the outcome.
\<close>

definition fold_key ::
  "string \<Rightarrow> string \<Rightarrow> string \<Rightarrow> pydict \<Rightarrow> string list \<times> (exn + pydict)" where
  "fold_key sing plur msg d =
     (case map_of d sing of
        None \<Rightarrow> ([], Inr d)
      | Some v \<Rightarrow>
          if has_key d plur then ([msg], Inl (AssertionError []))
          else ([], Inr (dict_set plur v (dict_del sing d))))"

text \<open>The three pairs in the order of the source. The message printed for
  \<^verbatim>\<open>module\<close>/\<^verbatim>\<open>modules\<close> is the one of the source, which is the text for \<^verbatim>\<open>file\<close>/\<^verbatim>\<open>files\<close>.\<close>

definition fold_keys :: "pydict \<Rightarrow> string list \<times> (exn + pydict)" where
  "fold_keys d =
     (case fold_key ''file'' ''files'' conflict_msg_file d of
        (out, Inl e) \<Rightarrow> (out, Inl e)
      | (out, Inr d1) \<Rightarrow>
          (case fold_key ''module'' ''modules'' conflict_msg_file d1 of
             (out2, Inl e) \<Rightarrow> (out @ out2, Inl e)
           | (out2, Inr d2) \<Rightarrow>
               (case fold_key ''asset'' ''assets'' conflict_msg_asset d2 of
                  (out3, r) \<Rightarrow> (out @ out2 @ out3, r))))"

text \<open>\<^verbatim>\<open>if ki in swenv: if not isinstance(swenv[ki], list): swenv[ki] = [swenv[ki]]\<close>.\<close>

definition coerce_list :: "string \<Rightarrow> pydict \<Rightarrow> pydict" where
  "coerce_list k d =
     (case map_of d k of
        None \<Rightarrow> d
      | Some (PList xs) \<Rightarrow> d
      | Some v \<Rightarrow> dict_set k (PList [v]) d)"

definition coerce_lists :: "pydict \<Rightarrow> pydict" where
  "coerce_lists d = coerce_list ''pip'' (coerce_list ''assets'' (coerce_list ''files'' d))"

definition reserved_msg :: "string \<Rightarrow> string \<Rightarrow> string" where
  "reserved_msg kind p =
     ''The prefix 'cpd_software_env' is reserved. Rename '' @ kind @ '' '' @ quote @ p @ quote"

text \<open>
  The check closing each loop body:
  \<^verbatim>\<open>if files[idx].get("path").startswith("cpd_software_env"): raise ValueError(...)\<close>.
  A missing path is \<^verbatim>\<open>None\<close>, and \<^verbatim>\<open>None.startswith\<close> (as for any value that is not a
  string) raises \<^verbatim>\<open>AttributeError\<close>.
\<close>

definition check_reserved :: "string \<Rightarrow> pydict \<Rightarrow> exn + pyval" where
  "check_reserved kind e =
     (case get e ''path'' of
        PStr p \<Rightarrow>
          if startswith p reserved_prefix then Inl (ValueError (reserved_msg kind p))
          else Inr (PDict e)
      | _ \<Rightarrow> Inl AttributeError)"

text \<open>
  The loop body for \<^verbatim>\<open>files\<close> and \<^verbatim>\<open>modules\<close>; \<open>base\<close> is \<^verbatim>\<open>swenv_path.absolute()\<close>:
  \<^verbatim>\<open>if isinstance(item, str):
      files[idx] = {"name": item, "path": item, "root": str(swenv_path)}
  else:
      assert isinstance(item, dict)
      assert item.get("path")
      files[idx]["root"] = str(swenv_path / item.get("path", ""))\<close>
\<close>

definition norm_file_entry :: "string \<Rightarrow> path \<Rightarrow> pyval \<Rightarrow> exn + pyval" where
  "norm_file_entry kind base item =
     (case item of
        PStr s \<Rightarrow>
          check_reserved kind
            [(''name'', PStr s), (''path'', PStr s), (''root'', PStr (path_str base))]
      | PDict d \<Rightarrow>
          if \<not> truthy (get d ''path'') then Inl (AssertionError [])
          else (case path_join_val base (get_default d ''path'' (PStr [])) of
                  Inl e \<Rightarrow> Inl e
                | Inr r \<Rightarrow> check_reserved kind (dict_set ''root'' (PStr (path_str r)) d))
      | _ \<Rightarrow> Inl (AssertionError []))"

text \<open>
  The loop body for \<^verbatim>\<open>assets\<close>:
  \<^verbatim>\<open>if isinstance(item, str):
      if Path(item).suffix == ".py":
          assets[idx] = {"name": str(Path(item).stem), "path": item, "asset_type": "script"}
      else:
          assets[idx] = {"name": item, "path": item, "asset_type": "data_asset"}
  else:
      assert isinstance(item, dict)\<close>
\<close>

definition norm_asset_entry :: "pyval \<Rightarrow> exn + pyval" where
  "norm_asset_entry item =
     (case item of
        PStr s \<Rightarrow>
          if path_suffix (mk_path s) = ''.py''
          then check_reserved ''asset''
                 [(''name'', PStr (path_stem (mk_path s))), (''path'', PStr s),
                  (''asset_type'', PStr ''script'')]
          else check_reserved ''asset''
                 [(''name'', PStr s), (''path'', PStr s), (''asset_type'', PStr ''data_asset'')]
      | PDict d \<Rightarrow> check_reserved ''asset'' d
      | _ \<Rightarrow> Inl (AssertionError []))"

text \<open>\<^verbatim>\<open>for idx, item in enumerate(xs)\<close> over a list: the first exception ends the loop.\<close>

fun norm_entries :: "(pyval \<Rightarrow> exn + pyval) \<Rightarrow> pyval list \<Rightarrow> exn + pyval list" where
  "norm_entries f [] = Inr []"
| "norm_entries f (x # xs) =
     (case f x of
        Inl e \<Rightarrow> Inl e
      | Inr y \<Rightarrow> (case norm_entries f xs of Inl e \<Rightarrow> Inl e | Inr ys \<Rightarrow> Inr (y # ys)))"

text \<open>
  One of the three loops, on the value under key \<open>k\<close> (\<^verbatim>\<open>swenv.get(k, [])\<close>). \<^verbatim>\<open>files\<close> and
  \<^verbatim>\<open>assets\<close> are lists by now; \<^verbatim>\<open>modules\<close> is not coerced, and what Python does with
  \<^verbatim>\<open>enumerate\<close> of another value is written out: \<^verbatim>\<open>None\<close>, a boolean or an integer is not
  iterable; a non-empty string yields a one-character string, and the item assignment
  into the string fails; a non-empty dictionary yields its first key, the assignment
  \<^verbatim>\<open>files[0] = {...}\<close> adds a key, and after the prefix check of that key the iteration
  fails because the dictionary changed size.
\<close>

definition norm_key :: "string \<Rightarrow> (pyval \<Rightarrow> exn + pyval) \<Rightarrow> string \<Rightarrow> pydict \<Rightarrow> exn + pydict" where
  "norm_key k f kind d =
     (case map_of d k of
        None \<Rightarrow> Inr d
      | Some (PList xs) \<Rightarrow>
          (case norm_entries f xs of
             Inl e \<Rightarrow> Inl e
           | Inr ys \<Rightarrow> Inr (dict_set k (PList ys) d))
      | Some (PStr s) \<Rightarrow> (if s = [] then Inr d else Inl TypeError)
      | Some (PDict m) \<Rightarrow>
          (case m of
             [] \<Rightarrow> Inr d
           | (key, _) # _ \<Rightarrow>
               if startswith key reserved_prefix then Inl (ValueError (reserved_msg kind key))
               else Inl (RuntimeError ''dictionary changed size during iteration''))
      | Some _ \<Rightarrow> Inl TypeError)"

text \<open>
  \<^verbatim>\<open>_normalize_swenv(swenv, swenv_path)\<close>. The source updates \<open>swenv\<close> in place; the model
  returns the lines printed and the updated document, or the exception. The document
  that a failed run leaves behind is \<open>normalize_swenv_left\<close> below.
\<close>

definition normalize_swenv :: "path \<Rightarrow> pydict \<Rightarrow> path \<Rightarrow> string list \<times> (exn + pydict)" where
  "normalize_swenv cwd swenv swenv_path =
     (let base = path_absolute cwd swenv_path in
      case fold_keys swenv of
        (out, Inl e) \<Rightarrow> (out, Inl e)
      | (out, Inr d0) \<Rightarrow>
          (out,
           case norm_key ''files'' (norm_file_entry ''file'' base) ''file'' (coerce_lists d0) of
             Inl e \<Rightarrow> Inl e
           | Inr d1 \<Rightarrow>
               (case norm_key ''modules'' (norm_file_entry ''module'' base) ''module'' d1 of
                  Inl e \<Rightarrow> Inl e
                | Inr d2 \<Rightarrow> norm_key ''assets'' norm_asset_entry ''asset'' d2)))"

text \<open>
  The source works on the document itself, so a run that raises leaves it partly
  normalized. An entry on which the loop body raises is left as follows: a plain string
  has already been replaced by its mapping when the prefix check raises; a file mapping
  has its root set when the prefix check raises, and is untouched when an assertion or
  the path join raises; an asset mapping is never changed.
\<close>

definition file_entry_left :: "path \<Rightarrow> pyval \<Rightarrow> pyval" where
  "file_entry_left base item =
     (case item of
        PStr s \<Rightarrow> PDict [(''name'', PStr s), (''path'', PStr s), (''root'', PStr (path_str base))]
      | PDict d \<Rightarrow>
          if \<not> truthy (get d ''path'') then item
          else (case path_join_val base (get_default d ''path'' (PStr [])) of
                  Inl e \<Rightarrow> item
                | Inr r \<Rightarrow> PDict (dict_set ''root'' (PStr (path_str r)) d))
      | _ \<Rightarrow> item)"

definition asset_entry_left :: "pyval \<Rightarrow> pyval" where
  "asset_entry_left item =
     (case item of
        PStr s \<Rightarrow>
          if path_suffix (mk_path s) = ''.py''
          then PDict [(''name'', PStr (path_stem (mk_path s))), (''path'', PStr s),
                      (''asset_type'', PStr ''script'')]
          else PDict [(''name'', PStr s), (''path'', PStr s), (''asset_type'', PStr ''data_asset'')]
      | _ \<Rightarrow> item)"

text \<open>The list after a loop with body \<open>f\<close>: the entries before the failing one are
  normalized, the failing one is as \<open>g\<close> gives it, the entries after it are untouched.\<close>

fun entries_left :: "(pyval \<Rightarrow> exn + pyval) \<Rightarrow> (pyval \<Rightarrow> pyval) \<Rightarrow> pyval list \<Rightarrow> pyval list" where
  "entries_left f g [] = []"
| "entries_left f g (x # xs) =
     (case f x of Inl e \<Rightarrow> g x # xs | Inr y \<Rightarrow> y # entries_left f g xs)"

text \<open>
  The document after one of the three loops. The list under the key is updated in its
  place. A value that is not a list is left as it is: a string cannot be assigned to,
  and the key that the source adds to a non-empty dictionary before it fails is the
  integer \<^verbatim>\<open>0\<close>, which a dictionary with string keys cannot hold.
\<close>

definition key_left :: "string \<Rightarrow> (pyval \<Rightarrow> exn + pyval) \<Rightarrow> (pyval \<Rightarrow> pyval) \<Rightarrow> pydict \<Rightarrow> pydict" where
  "key_left k f g d =
     (case map_of d k of
        Some (PList xs) \<Rightarrow> dict_set k (PList (entries_left f g xs)) d
      | _ \<Rightarrow> d)"

text \<open>The document after key folding: a conflict leaves the pairs folded before it.\<close>

definition fold_keys_left :: "pydict \<Rightarrow> pydict" where
  "fold_keys_left d =
     (case fold_key ''file'' ''files'' conflict_msg_file d of
        (out, Inl e) \<Rightarrow> d
      | (out, Inr d1) \<Rightarrow>
          (case fold_key ''module'' ''modules'' conflict_msg_file d1 of
             (out2, Inl e) \<Rightarrow> d1
           | (out2, Inr d2) \<Rightarrow>
               (case fold_key ''asset'' ''assets'' conflict_msg_asset d2 of
                  (out3, Inl e) \<Rightarrow> d2
                | (out3, Inr d3) \<Rightarrow> d3)))"

text \<open>The document that \<^verbatim>\<open>_normalize_swenv\<close> leaves in \<open>swenv\<close>, whether it returns or raises.\<close>

definition normalize_swenv_left :: "path \<Rightarrow> pydict \<Rightarrow> path \<Rightarrow> pydict" where
  "normalize_swenv_left cwd swenv swenv_path =
     (let base = path_absolute cwd swenv_path in
      case fold_keys swenv of
        (out, Inl e) \<Rightarrow> fold_keys_left swenv
      | (out, Inr d0) \<Rightarrow>
          (case norm_key ''files'' (norm_file_entry ''file'' base) ''file'' (coerce_lists d0) of
             Inl e \<Rightarrow>
               key_left ''files'' (norm_file_entry ''file'' base) (file_entry_left base)
                 (coerce_lists d0)
           | Inr d1 \<Rightarrow>
               (case norm_key ''modules'' (norm_file_entry ''module'' base) ''module'' d1 of
                  Inl e \<Rightarrow>
                    key_left ''modules'' (norm_file_entry ''module'' base) (file_entry_left base) d1
                | Inr d2 \<Rightarrow>
                    (case norm_key ''assets'' norm_asset_entry ''asset'' d2 of
                       Inl e \<Rightarrow> key_left ''assets'' norm_asset_entry asset_entry_left d2
                     | Inr d3 \<Rightarrow> d3))))"

section \<open>Process state and the outside world\<close>

text \<open>
  \<^verbatim>\<open>sys.path\<close> is a list of Python objects. The module inserts strings into it and tests
  both strings and \<^verbatim>\<open>Path\<close> objects for membership; \<^verbatim>\<open>x in xs\<close> compares with \<^verbatim>\<open>==\<close>, and a
  \<^verbatim>\<open>Path\<close> never equals a string. The two kinds of object are therefore kept apart.
\<close>

datatype pyobj = StrObj string | PathObj path

text \<open>
  The module's globals and the other things it changes: \<^verbatim>\<open>sys.path\<close>, the standard output
  (one entry per \<^verbatim>\<open>print\<close>), \<^verbatim>\<open>os.environ\<close>, the lines of \<^verbatim>\<open>tmp_requirements.txt\<close>, and the
  target paths written by \<^verbatim>\<open>cpd_download_asset_to_file\<close>. Calls of \<^verbatim>\<open>logging\<close> are not
  modelled.
\<close>

record pstate =
  sys_path :: "pyobj list"
  PkgMsgs :: "string list"
  stdout :: "string list"
  environ :: "string \<Rightarrow> string option"
  AssetsDownloadPending :: pyval
  PkgInitialized :: bool
  SoftwareEnv :: pyval
  CurrentSwspecId :: pyval
  reqfile :: "string list"
  downloaded :: "string list"

text \<open>
  What the module reads from outside and does not change: the directory of the module
  file (\<^verbatim>\<open>get_path()\<close>), the file system as \<^verbatim>\<open>is_dir\<close>/\<^verbatim>\<open>is_file\<close> see it, the result of the
  \<^verbatim>\<open>pip\<close> subprocess (exit status and combined output), \<^verbatim>\<open>repr\<close> of a value inside an
  f-string, the parsers of the configuration files, and the two calls of the platform's
  asset store.
\<close>

record world =
  pkg_dir :: path
  is_dir :: "path \<Rightarrow> bool"
  is_file :: "path \<Rightarrow> bool"
  subprocess_run :: "string list \<Rightarrow> pstate \<Rightarrow> int \<times> string"
  repr :: "pyval \<Rightarrow> string"
  read_swenv_yaml :: "path \<Rightarrow> exn + pyval"
  json_load :: "string \<Rightarrow> exn + pyval"
  cpd_lookup_asset :: "pydict \<Rightarrow> pyval \<Rightarrow> pyval \<Rightarrow> exn + pyval"
  cpd_download_asset_to_file :: "pydict \<Rightarrow> pyval \<Rightarrow> string \<Rightarrow> exn option"

text \<open>A statement maps the state to the exception it raised, if any, and the state it
  left behind: what was changed before a \<^verbatim>\<open>raise\<close> stays changed.\<close>

type_synonym cmd = "pstate \<Rightarrow> exn option \<times> pstate"

fun for_each :: "('a \<Rightarrow> cmd) \<Rightarrow> 'a list \<Rightarrow> cmd" where
  "for_each f [] s = (None, s)"
| "for_each f (x # xs) s =
     (case f x s of
        (None, s') \<Rightarrow> for_each f xs s'
      | (Some e, s') \<Rightarrow> (Some e, s'))"

text \<open>\<^verbatim>\<open>str(v)\<close> inside an f-string: a string is itself, anything else is its \<^verbatim>\<open>repr\<close>.\<close>

definition py_str :: "world \<Rightarrow> pyval \<Rightarrow> string" where
  "py_str w v = (case v of PStr s \<Rightarrow> s | _ \<Rightarrow> repr w v)"

text \<open>\<^verbatim>\<open>if os.getenv(k)\<close> and \<^verbatim>\<open>os.getenv(k, "")\<close>.\<close>

definition getenv_set :: "pstate \<Rightarrow> string \<Rightarrow> bool" where
  "getenv_set s k = (case environ s k of None \<Rightarrow> False | Some v \<Rightarrow> v \<noteq> [])"

definition getenv_str :: "pstate \<Rightarrow> string \<Rightarrow> string" where
  "getenv_str s k = (case environ s k of None \<Rightarrow> [] | Some v \<Rightarrow> v)"

definition print_line :: "string \<Rightarrow> pstate \<Rightarrow> pstate" where
  "print_line l s = s\<lparr>stdout := stdout s @ [l]\<rparr>"

text \<open>\<^verbatim>\<open>_my_print_msg\<close>: the message goes to \<^verbatim>\<open>PkgMsgs\<close>, and to the standard output as well
  when \<^verbatim>\<open>CPD_SOFTWARE_ENV_VERBOSE\<close> is set.\<close>

definition my_print_msg :: "string \<Rightarrow> pstate \<Rightarrow> pstate" where
  "my_print_msg msg s =
     (let s1 = s\<lparr>PkgMsgs := PkgMsgs s @ [msg]\<rparr>
      in if getenv_set s1 ''CPD_SOFTWARE_ENV_VERBOSE''
         then print_line (''..swenv: '' @ msg) s1 else s1)"

definition get_msgs :: "pstate \<Rightarrow> string list" where
  "get_msgs s = PkgMsgs s"

section \<open>The installer\<close>

text \<open>\<^verbatim>\<open>_install_swenv_dir\<close>: the membership test is made on the \<^verbatim>\<open>Path\<close> object, the
  insertion on its string.\<close>

definition install_swenv_dir :: "path \<Rightarrow> pstate \<Rightarrow> pstate" where
  "install_swenv_dir autoinst_dir s =
     (if PathObj autoinst_dir \<notin> set (sys_path s)
      then s\<lparr>sys_path := StrObj (path_str autoinst_dir) # sys_path s\<rparr>
      else s)"

text \<open>\<^verbatim>\<open>_install_swenv_file\<close>, called with a \<^verbatim>\<open>Path\<close>: here the string is tested.\<close>

definition install_swenv_file :: "path \<Rightarrow> pstate \<Rightarrow> pstate" where
  "install_swenv_file thefile s =
     (if path_suffix thefile = ''.py''
      then (let dir = path_str (path_parent thefile)
            in if StrObj dir \<notin> set (sys_path s)
               then s\<lparr>sys_path := StrObj dir # sys_path s\<rparr> else s)
      else s)"

text \<open>
  The path of a mapping entry:
  \<^verbatim>\<open>if swenv.get("file_path_ignore_root"): path = Path(p["path"])
  else: path = Path(p.get("root", "")) / p["path"]\<close>
\<close>

definition dict_entry_path :: "pydict \<Rightarrow> pydict \<Rightarrow> exn + path" where
  "dict_entry_path swenv p =
     (if truthy (get swenv ''file_path_ignore_root'')
      then (case map_of p ''path'' of
              None \<Rightarrow> Inl (KeyError ''path'')
            | Some v \<Rightarrow> as_path v)
      else (case as_path (get_default p ''root'' (PStr [])) of
              Inl e \<Rightarrow> Inl e
            | Inr r \<Rightarrow>
                (case map_of p ''path'' of
                   None \<Rightarrow> Inl (KeyError ''path'')
                 | Some v \<Rightarrow> path_join_val r v)))"

definition set_sys_path_msg :: "world \<Rightarrow> pyval \<Rightarrow> string" where
  "set_sys_path_msg w p =
     (let name_msg = (case p of PDict d \<Rightarrow> get_default d ''name'' (get d ''path'') | _ \<Rightarrow> p)
      in ''set sys.path for '' @ quote @ py_str w name_msg @ quote)"

text \<open>\<^verbatim>\<open>print("Error in install swenv: file", path, "not found. Skipping entry.")\<close>.\<close>

definition not_found_msg :: "path \<Rightarrow> string" where
  "not_found_msg p =
     ''Error in install swenv: file '' @ path_str p @ '' not found. Skipping entry.''"

text \<open>The path built from one file entry: \<^verbatim>\<open>Path(p)\<close> for an entry that is not a
  mapping.\<close>

definition file_entry_path :: "pydict \<Rightarrow> pyval \<Rightarrow> exn + path" where
  "file_entry_path swenv p =
     (case p of PDict d \<Rightarrow> dict_entry_path swenv d | _ \<Rightarrow> as_path p)"

definition is_dict :: "pyval \<Rightarrow> bool" where
  "is_dict v = (case v of PDict _ \<Rightarrow> True | _ \<Rightarrow> False)"

text \<open>
  The body of the loop over the file entries in \<^verbatim>\<open>_install_swenv\<close>:
  \<^verbatim>\<open>_my_print_msg(f"set sys.path for '{name_msg}'")
  if isinstance(p, dict): path = ...; _my_print_msg(f"dict_path {path}")
  else: path = Path(p)
  path = swenv_path / path
  if path.is_dir(): _install_swenv_dir(path)
  elif path.is_file(): _install_swenv_file(path)
  else: print("Error in install swenv: file", path, "not found. Skipping entry.")\<close>
\<close>

definition install_file_entry :: "world \<Rightarrow> pydict \<Rightarrow> path \<Rightarrow> pyval \<Rightarrow> cmd" where
  "install_file_entry w swenv swenv_path p s =
     (let s1 = my_print_msg (set_sys_path_msg w p) s
      in case file_entry_path swenv p of
           Inl e \<Rightarrow> (Some e, s1)
         | Inr q \<Rightarrow>
             (let s2 = (if is_dict p then my_print_msg (''dict_path '' @ path_str q) s1 else s1);
                  path = path_join swenv_path q
              in if is_dir w path then (None, install_swenv_dir path s2)
                 else if is_file w path then (None, install_swenv_file path s2)
                 else (None, print_line (not_found_msg path) s2)))"

text \<open>\<^verbatim>\<open>_run_pip\<close>.\<close>

definition run_pip :: "world \<Rightarrow> string list \<Rightarrow> cmd" where
  "run_pip w pip_cmd s =
     (let s1 = my_print_msg (''run '' @ repr w (PList (map PStr pip_cmd))) s;
          returncode = fst (subprocess_run w pip_cmd s1);
          out = snd (subprocess_run w pip_cmd s1)
      in if returncode \<noteq> 0 then (Some (PipInstallFailed pip_cmd out), s1) else (None, s1))"

text \<open>\<^verbatim>\<open>for x in v\<close>: a list yields its elements, a string its characters, a dictionary
  its keys; anything else is not iterable.\<close>

definition iter_values :: "pyval \<Rightarrow> exn + pyval list" where
  "iter_values v =
     (case v of
        PList xs \<Rightarrow> Inr xs
      | PStr s \<Rightarrow> Inr (map (\<lambda>c. PStr [c]) s)
      | PDict d \<Rightarrow> Inr (map (\<lambda>kv. PStr (fst kv)) d)
      | _ \<Rightarrow> Inl TypeError)"

text \<open>One requirement of \<^verbatim>\<open>_map_pip_packages_list_to_reqfile\<close>, written as a line of
  \<^verbatim>\<open>tmp_requirements.txt\<close>.\<close>

definition pip_line :: "world \<Rightarrow> pyval \<Rightarrow> cmd" where
  "pip_line w dep s =
     (case dep of
        PStr l \<Rightarrow> (None, s\<lparr>reqfile := reqfile s @ [l]\<rparr>)
      | PDict d \<Rightarrow>
          if truthy (get d ''path'')
          then (case path_join_val (pkg_dir w) (get d ''path'') of
                  Inl e \<Rightarrow> (Some e, s)
                | Inr p \<Rightarrow>
                    (None, s\<lparr>reqfile := reqfile s @
                       [''--index-url file://'' @ path_str (path_join p (mk_path ''simple''))]\<rparr>))
          else (Some (AssertionError []),
                print_line ''Error: pip entry is a dict but the key 'path' is missing'' s)
      | _ \<Rightarrow> (Some (AssertionError []), s))"

definition map_pip_packages_list_to_reqfile :: "world \<Rightarrow> pyval \<Rightarrow> cmd" where
  "map_pip_packages_list_to_reqfile w piplist s =
     (case iter_values piplist of
        Inl e \<Rightarrow> (Some e, s\<lparr>reqfile := []\<rparr>)
      | Inr deps \<Rightarrow> for_each (pip_line w) deps (s\<lparr>reqfile := []\<rparr>))"

definition os_path_join :: "string \<Rightarrow> string \<Rightarrow> string" where
  "os_path_join a b = (if a = [] \<or> last a = CHR ''/'' then a @ b else a @ ''/'' @ b)"

text \<open>\<^verbatim>\<open>_install_pip_packages_list\<close>.\<close>

definition install_pip_packages_list :: "world \<Rightarrow> pyval \<Rightarrow> cmd" where
  "install_pip_packages_list w piplist s =
     (let pip_conf = os_path_join (path_str (pkg_dir w)) ''pip.conf'';
          s1 = (if is_file w (mk_path pip_conf)
                then (my_print_msg (''Setting PIP_CONFIG_FILE='' @ pip_conf) s)
                       \<lparr>environ := (environ s)(''PIP_CONFIG_FILE'' \<mapsto> pip_conf)\<rparr>
                else s)
      in case map_pip_packages_list_to_reqfile w piplist s1 of
           (Some e, s2) \<Rightarrow> (Some e, s2)
         | (None, s2) \<Rightarrow>
             run_pip w [''pip'', ''install'', ''-r'', ''tmp_requirements.txt'']
               (my_print_msg
                  (''tmp_requirements.txt'' @ [CHR 0x0A] @ ''----'' @ [CHR 0x0A]
                   @ concat (map (\<lambda>l. l @ [CHR 0x0A]) (reqfile s2)) @ ''----'') s2))"

text \<open>\<^verbatim>\<open>_running_in_ws_jupyterlab\<close>.\<close>

definition running_in_ws_jupyterlab :: "pstate \<Rightarrow> bool" where
  "running_in_ws_jupyterlab s =
     (startswith (getenv_str s ''JUPYTER_CONFIG_DIR'') ''/home/wsuser/.jupyter/lab''
      \<or> startswith (getenv_str s ''HOSTNAME'') ''jupyter-lab'')"

text \<open>One asset of \<^verbatim>\<open>_provision_assets\<close>.\<close>

definition provision_asset :: "world \<Rightarrow> pyval \<Rightarrow> cmd" where
  "provision_asset w asset_ref s =
     (let s1 = (if getenv_set s ''SPACE_ID''
                then my_print_msg (''Found space id '' @ getenv_str s ''SPACE_ID'') s else s);
          s2 = (if getenv_set s1 ''USER_ACCESS_TOKEN''
                then my_print_msg ''Found an access token'' s1 else s1)
      in case asset_ref of
           PDict d \<Rightarrow>
             if truthy (get d ''path'') \<and> get d ''asset_type'' = PStr ''script''
             then (case path_join_val (pkg_dir w) (get d ''path'') of
                     Inl e \<Rightarrow> (Some e, s2)
                   | Inr p \<Rightarrow>
                       if StrObj (py_str w (get d ''path'')) \<notin> set (sys_path s2)
                       then (let dir_path = path_str (path_parent p);
                                 s3 = my_print_msg (''Adding path '' @ dir_path @ '' for ''
                                        @ py_str w (get d ''name'')) s2
                             in (None, s3\<lparr>sys_path := StrObj dir_path # sys_path s3\<rparr>))
                       else (None, s2))
             else (None, s2)
         | _ \<Rightarrow> (Some AttributeError, s2))"

definition provision_assets :: "world \<Rightarrow> pyval \<Rightarrow> cmd" where
  "provision_assets w asset_list s =
     (let s1 = print_line (''_provision_assets '' @ py_str w asset_list) s
      in case asset_list of
           PList xs \<Rightarrow> for_each (provision_asset w) xs s1
         | _ \<Rightarrow> (Some (AssertionError []), s1))"

definition msg_dynamic_download :: string where
  "msg_dynamic_download = ''Warning: dynamic download of assets in deployment not yet supported''"

definition msg_call_build :: string where
  "msg_call_build = ''...      call build(add={'assets'} in the project''"

text \<open>The branch of \<^verbatim>\<open>_install_swenv\<close> for the keys \<^verbatim>\<open>assets\<close> and \<^verbatim>\<open>asset\<close>.\<close>

definition install_assets :: "world \<Rightarrow> pydict \<Rightarrow> cmd" where
  "install_assets w swenv s =
     (let asset_list = get_default swenv ''assets'' (get swenv ''asset'')
      in if truthy (get swenv ''assets_added_to_sdist'') then provision_assets w asset_list s
         else if running_in_ws_jupyterlab s
         then (None, my_print_msg
                 ''Assuming that assets are already available locally in JupyterLab'' s)
         else if \<not> truthy (get swenv ''built_swenv'')
         then (None, my_print_msg ''Assuming that assets are already available locally'' s)
         else (None, (my_print_msg msg_call_build (my_print_msg msg_dynamic_download s))
                       \<lparr>AssetsDownloadPending := asset_list\<rparr>))"

text \<open>The branch for the keys \<^verbatim>\<open>files\<close> and \<^verbatim>\<open>file\<close>.\<close>

definition install_files :: "world \<Rightarrow> pydict \<Rightarrow> path \<Rightarrow> cmd" where
  "install_files w swenv swenv_path s =
     (let file_val = get_default swenv ''files'' (get swenv ''file'');
          file_list = (case file_val of PList xs \<Rightarrow> xs | _ \<Rightarrow> [file_val])
      in for_each (install_file_entry w swenv swenv_path) file_list s)"

text \<open>The body of \<^verbatim>\<open>for ki in swenv\<close>.\<close>

definition install_key :: "world \<Rightarrow> pydict \<Rightarrow> path \<Rightarrow> string \<Rightarrow> cmd" where
  "install_key w swenv swenv_path ki s =
     (if ki = ''pip'' then install_pip_packages_list w (get swenv ''pip'') s
      else if ki \<in> set [''conda'', ''conda_channel'', ''conda_dependencies'', ''channel'',
                          ''dependencies'']
      then (None, print_line ''swenv conda not yet implemented'' s)
      else if ki = ''files'' \<or> ki = ''file'' then install_files w swenv swenv_path s
      else if ki = ''modules'' \<or> ki = ''module''
      then (None, print_line ''import module manually in the project'' s)
      else if ki = ''assets'' \<or> ki = ''asset'' then install_assets w swenv s
      else if ki \<notin> set [''name'', ''base'', ''file_path_ignore_root'', ''assets_added_to_sdist'',
                           ''pip_added_to_sdist'']
      then (None, my_print_msg (''swenv tag '' @ quote @ ki @ quote
                                 @ '' not recognized, ignoring the value ...'') s)
      else (None, s))"

text \<open>\<^verbatim>\<open>_install_swenv(swenv, swenv_path)\<close>: the keys in the order of the dictionary (a
  dictionary has each key once).\<close>

definition install_swenv :: "world \<Rightarrow> pydict \<Rightarrow> path \<Rightarrow> cmd" where
  "install_swenv w swenv swenv_path = for_each (install_key w swenv swenv_path) (map fst swenv)"

section \<open>Deferred download of assets\<close>

text \<open>One asset of \<^verbatim>\<open>_download_assets\<close>. The default of
  \<^verbatim>\<open>asset_ref.get("path", name + ".py")\<close> is computed whether or not it is used.\<close>

definition download_asset :: "world \<Rightarrow> pydict \<Rightarrow> path \<Rightarrow> pyval \<Rightarrow> cmd" where
  "download_asset w cpd_conn target_dir asset_ref s =
     (case asset_ref of
        PDict d \<Rightarrow>
          (let asset_type = get_default d ''asset_type'' (get d ''type''); name = get d ''name''
           in if \<not> (truthy asset_type \<and> truthy name) then (Some (AssertionError []), s)
              else (case cpd_lookup_asset w cpd_conn asset_type name of
                      Inl e \<Rightarrow> (Some e, s)
                    | Inr asset \<Rightarrow>
                        if \<not> truthy asset
                        then (Some (PyException (''Unable to find '' @ py_str w asset_type @ '' ''
                                       @ quote @ py_str w name @ quote)), s)
                        else (case name of
                                PStr n \<Rightarrow>
                                  (let path = get_default d ''path'' (PStr (n @ ''.py''));
                                       s1 = my_print_msg (''adding '' @ py_str w asset_type
                                              @ '' '' @ py_str w path) s
                                   in case path_join_val target_dir path of
                                        Inl e \<Rightarrow> (Some e, s1)
                                      | Inr p \<Rightarrow>
                                          (case cpd_download_asset_to_file w cpd_conn asset
                                                  (path_str p) of
                                             Some e \<Rightarrow> (Some e, s1)
                                           | None \<Rightarrow>
                                               (None, s1\<lparr>downloaded :=
                                                  downloaded s1 @ [path_str p]\<rparr>)))
                              | _ \<Rightarrow> (Some TypeError, s))))
      | _ \<Rightarrow> (Some (AssertionError []), s))"

definition download_assets :: "world \<Rightarrow> pydict \<Rightarrow> pyval \<Rightarrow> path \<Rightarrow> cmd" where
  "download_assets w cpd_conn asset_list target_dir s =
     (if cpd_conn = [] then (Some (AssertionError []), s)
      else (case asset_list of
              PList xs \<Rightarrow> for_each (download_asset w cpd_conn target_dir) xs s
            | _ \<Rightarrow> (Some (AssertionError []), s)))"

definition is_list :: "pyval \<Rightarrow> bool" where
  "is_list v = (case v of PList _ \<Rightarrow> True | _ \<Rightarrow> False)"

text \<open>
  The connection built by \<^verbatim>\<open>download_pending_assets\<close> once one of the two identifiers is
  known to be set:
  \<^verbatim>\<open>if os.getenv("SPACE_ID"): cpd_conn["space_id"] = os.getenv("SPACE_ID")
  elif os.getenv("PROJECT_ID"): cpd_conn["project_id"] = os.getenv("PROJECT_ID")\<close>
\<close>

definition cpd_conn_of :: "pstate \<Rightarrow> pydict" where
  "cpd_conn_of t =
     (if getenv_set t ''SPACE_ID'' then [(''space_id'', PStr (getenv_str t ''SPACE_ID''))]
      else [(''project_id'', PStr (getenv_str t ''PROJECT_ID''))])"

text \<open>\<^verbatim>\<open>download_pending_assets()\<close>.\<close>

definition download_pending_assets :: "world \<Rightarrow> cmd" where
  "download_pending_assets w s =
     (if \<not> truthy (AssetsDownloadPending s) then (None, print_line ''No assets to download'' s)
      else if \<not> is_list (AssetsDownloadPending s) then (Some (AssertionError []), s)
      else (let s1 = my_print_msg (''Downloading assets '' @ py_str w (AssetsDownloadPending s)) s
            in if \<not> getenv_set s1 ''USER_ACCESS_TOKEN''
               then (Some (AssertionError ''download assets: missing access token''), s1)
               else if \<not> getenv_set s1 ''SPACE_ID'' \<and> \<not> getenv_set s1 ''PROJECT_ID''
               then (Some (PyException ''download assets: missing space id and project id''), s1)
               else (case download_assets w (cpd_conn_of s1) (AssetsDownloadPending s1)
                            (pkg_dir w) s1 of
                       (Some e, s2) \<Rightarrow> (Some e, s2)
                     | (None, s2) \<Rightarrow> (None, s2\<lparr>AssetsDownloadPending := PList []\<rparr>))))"

section \<open>Loading a configuration\<close>

text \<open>
  \<^verbatim>\<open>_set_swenv_from_file(fpath)\<close>, called by \<^verbatim>\<open>setup\<close>. \<open>cwd\<close> is the current working
  directory. \<^verbatim>\<open>SoftwareEnv\<close> is the document that is normalized in place, so it holds the
  partly normalized document when normalization raises.
\<close>

definition set_swenv_from_file :: "world \<Rightarrow> path \<Rightarrow> string \<Rightarrow> cmd" where
  "set_swenv_from_file w cwd fpath s =
     (if PkgInitialized s
      then (None, print_line ''Error: Software Env is already initialized.'' s)
      else if truthy (SoftwareEnv s) then (Some (AssertionError []), s)
      else (let s1 = s\<lparr>CurrentSwspecId := PNone\<rparr>; fp = mk_path fpath
            in case read_swenv_yaml w fp of
                 Inl e \<Rightarrow> (Some e, s1)
               | Inr v \<Rightarrow>
                   (let s2 = my_print_msg (''set from file: '' @ py_str w v)
                               (s1\<lparr>SoftwareEnv := v\<rparr>)
                    in if \<not> truthy v then (Some (AssertionError []), s2)
                       else (case v of
                               PDict swenv \<Rightarrow>
                                 (case normalize_swenv cwd swenv (path_parent fp) of
                                    (out, Inl e) \<Rightarrow>
                                      (Some e, s2\<lparr>stdout := stdout s2 @ out,
                                         SoftwareEnv := PDict (normalize_swenv_left cwd swenv
                                                                 (path_parent fp))\<rparr>)
                                  | (out, Inr swenv') \<Rightarrow>
                                      (case install_swenv w swenv' (path_parent fp)
                                              (s2\<lparr>stdout := stdout s2 @ out,
                                                  SoftwareEnv := PDict swenv'\<rparr>) of
                                         (Some e, s3) \<Rightarrow> (Some e, s3)
                                       | (None, s3) \<Rightarrow> (None, s3\<lparr>PkgInitialized := True\<rparr>)))
                             | _ \<Rightarrow> (Some (AssertionError []), s2)))))"

text \<open>\<^verbatim>\<open>setup(filepath)\<close>.\<close>

definition setup_swenv :: "world \<Rightarrow> path \<Rightarrow> string \<Rightarrow> cmd" where
  "setup_swenv w cwd filepath = set_swenv_from_file w cwd filepath"

text \<open>\<^verbatim>\<open>_set_swenv_from_jsonfile(path)\<close> and \<^verbatim>\<open>load(name)\<close>.\<close>

definition set_swenv_from_jsonfile :: "world \<Rightarrow> string \<Rightarrow> cmd" where
  "set_swenv_from_jsonfile w p s =
     (case json_load w p of
        Inl e \<Rightarrow> (Some e, s)
      | Inr v \<Rightarrow> (None, s\<lparr>SoftwareEnv := v\<rparr>))"

definition load :: "world \<Rightarrow> string \<Rightarrow> cmd" where
  "load w name =
     set_swenv_from_jsonfile w
       (''/project_data/data_asset/cpd_software_env_saved/saved_'' @ name @ ''.json'')"

section \<open>Reading entries\<close>

text \<open>The path an entry stands for: the string itself, or the \<^verbatim>\<open>path\<close> field of a mapping.\<close>

definition entry_path :: "pyval \<Rightarrow> string option" where
  "entry_path e =
     (case e of
        PStr s \<Rightarrow> Some s
      | PDict d \<Rightarrow> (case get d ''path'' of PStr p \<Rightarrow> Some p | _ \<Rightarrow> None)
      | _ \<Rightarrow> None)"

text \<open>The entries listed under a key, and whether an entry is a mapping with a string
  under a field.\<close>

definition entries :: "pydict \<Rightarrow> string \<Rightarrow> pyval list" where
  "entries d k = (case map_of d k of Some (PList xs) \<Rightarrow> xs | _ \<Rightarrow> [])"


text \<open>The progress messages that the installer's loop sends to \<^verbatim>\<open>_my_print_msg\<close> for one
  file entry whose path is \<open>q\<close>, and the lines that \<^verbatim>\<open>_my_print_msg\<close> echoes for a list of
  messages.\<close>

definition entry_msgs :: "world \<Rightarrow> pyval \<Rightarrow> path \<Rightarrow> string list" where
  "entry_msgs w p q =
     set_sys_path_msg w p # (if is_dict p then [''dict_path '' @ path_str q] else [])"

definition verbose_lines :: "pstate \<Rightarrow> string list \<Rightarrow> string list" where
  "verbose_lines s msgs =
     (if getenv_set s ''CPD_SOFTWARE_ENV_VERBOSE'' then map (\<lambda>m. ''..swenv: '' @ m) msgs else [])"

text \<open>The file that \<^verbatim>\<open>_download_assets\<close> writes for an asset entry, with the module's
  directory as target: \<^verbatim>\<open>str(target_dir / asset_ref.get("path", name + ".py"))\<close>.\<close>

definition asset_target :: "world \<Rightarrow> pyval \<Rightarrow> string" where
  "asset_target w asset_ref =
     (case asset_ref of
        PDict d \<Rightarrow>
          (case get d ''name'' of
             PStr n \<Rightarrow>
               (case path_join_val (pkg_dir w) (get_default d ''path'' (PStr (n @ ''.py''))) of
                  Inr p \<Rightarrow> path_str p
                | Inl _ \<Rightarrow> [])
           | _ \<Rightarrow> [])
      | _ \<Rightarrow> [])"

text \<open>Two states agree on the environment variables other than \<^verbatim>\<open>PIP_CONFIG_FILE\<close>
  (the one the installer sets), and on the pending downloads as well.\<close>

definition env_kept :: "pstate \<Rightarrow> pstate \<Rightarrow> bool" where
  "env_kept s s' =
     (\<forall>k. k \<noteq> ''PIP_CONFIG_FILE'' \<longrightarrow> environ s' k = environ s k)"

definition kept :: "pstate \<Rightarrow> pstate \<Rightarrow> bool" where
  "kept s s' = (env_kept s s' \<and> AssetsDownloadPending s' = AssetsDownloadPending s)"







section \<open>Concrete inputs\<close>

definition cwd0 :: path where
  "cwd0 = mk_path ''/cwd''"

definition base0 :: path where
  "base0 = mk_path ''/base''"

text \<open>A file entry in mapping form with an explicit root.\<close>

definition doc_explicit_root :: pydict where
  "doc_explicit_root =
     [(''files'', PList [PDict [(''path'', PStr ''lib.py''), (''root'', PStr ''sub'')]])]"

text \<open>A document with both \<^verbatim>\<open>module\<close> and \<^verbatim>\<open>modules\<close>.\<close>

definition doc_module_conflict :: pydict where
  "doc_module_conflict = [(''module'', PList [PStr ''a'']), (''modules'', PList [PStr ''b''])]"

text \<open>The asset entry of the module's own documentation: a name and a type, no path.\<close>

definition doc_docstring_assets :: pydict where
  "doc_docstring_assets =
     [(''assets'',
       PList [PDict [(''name'', PStr ''My project asset''), (''type'', PStr ''data_asset'')]])]"

text \<open>A reserved path, alone and after an entry that has no path.\<close>

definition reserved_entry :: pyval where
  "reserved_entry = PStr ''cpd_software_env/x.py''"

definition doc_reserved :: pydict where
  "doc_reserved = [(''files'', PList [reserved_entry])]"

definition doc_reserved_after_malformed :: pydict where
  "doc_reserved_after_malformed =
     [(''files'', PList [PDict [(''name'', PStr ''a'')], reserved_entry])]"




text \<open>
  A world with the directory \<^verbatim>\<open>/base/lib\<close> and the file \<^verbatim>\<open>/base/src/tool.py\<close>, where \<^verbatim>\<open>pip\<close>
  fails on the requirement \<^verbatim>\<open>nosuchpkg\<close>, the configuration file lists the directory
  \<^verbatim>\<open>lib\<close>, and a saved environment holds another document. The process starts with one
  entry in \<^verbatim>\<open>sys.path\<close> and the module's globals at their initial values.
\<close>

definition world0 :: world where
  "world0 = \<lparr>pkg_dir = mk_path ''/pkg'',
     is_dir = (\<lambda>p. p = mk_path ''/base/lib''),
     is_file = (\<lambda>p. p = mk_path ''/base/src/tool.py''),
     subprocess_run = (\<lambda>cmd s. if reqfile s = [''nosuchpkg'']
                                  then (1, ''ERROR: No matching distribution found'')
                                  else (0, ''Successfully installed'')),
     repr = (\<lambda>v. ''<repr>''),
     read_swenv_yaml = (\<lambda>p. Inr (PDict [(''files'', PList [PStr ''lib''])])),
     json_load = (\<lambda>p. Inr (PDict [(''name'', PStr ''other'')])),
     cpd_lookup_asset = (\<lambda>c t n. Inr (PStr ''asset'')),
     cpd_download_asset_to_file = (\<lambda>c a p. None)\<rparr>"

definition state0 :: pstate where
  "state0 = \<lparr>sys_path = [StrObj ''/usr/lib/python3''], PkgMsgs = [], stdout = [],
     environ = Map.empty, AssetsDownloadPending = PNone, PkgInitialized = False,
     SoftwareEnv = PNone, CurrentSwspecId = PNone, reqfile = [], downloaded = []\<rparr>"

text \<open>One directory entry in canonical form; and a missing entry before it.\<close>

definition doc_lib_dir :: pydict where
  "doc_lib_dir =
     [(''files'', PList [PDict [(''name'', PStr ''lib''), (''path'', PStr ''lib''),
                                (''root'', PStr ''/base'')]])]"

definition doc_one_missing :: pydict where
  "doc_one_missing =
     [(''files'', PList [PDict [(''name'', PStr ''nofile''), (''path'', PStr ''nofile''),
                                (''root'', PStr ''/base'')],
                         PDict [(''name'', PStr ''lib''), (''path'', PStr ''lib''),
                                (''root'', PStr ''/base'')]])]"

text \<open>Requirements that fail and that install.\<close>

definition doc_pip_missing :: pydict where
  "doc_pip_missing = [(''pip'', PList [PStr ''nosuchpkg''])]"

definition doc_pip_ok :: pydict where
  "doc_pip_ok = [(''pip'', PList [PStr ''requests==2.0''])]"

definition pip_cmd0 :: "string list" where
  "pip_cmd0 = [''pip'', ''install'', ''-r'', ''tmp_requirements.txt'']"

text \<open>The state after \<^verbatim>\<open>setup("/base/env.yaml")\<close> in the initial state.\<close>

definition state_installed :: pstate where
  "state_installed = snd (setup_swenv world0 cwd0 ''/base/env.yaml'' state0)"

text \<open>A built environment with one script asset; the environments of a later call; and
  the state after installing the document in the initial state.\<close>

definition asset_foo :: pyval where
  "asset_foo = PDict [(''name'', PStr ''foo''), (''path'', PStr ''foo.py''),
                      (''asset_type'', PStr ''script'')]"

definition doc_deferred :: pydict where
  "doc_deferred = [(''assets'', PList [asset_foo]), (''built_swenv'', PBool True)]"

definition env_token :: "string \<Rightarrow> string option" where
  "env_token = [''USER_ACCESS_TOKEN'' \<mapsto> ''tok'']"

definition env_token_space_project :: "string \<Rightarrow> string option" where
  "env_token_space_project =
     [''USER_ACCESS_TOKEN'' \<mapsto> ''tok'', ''SPACE_ID'' \<mapsto> ''space1'',
      ''PROJECT_ID'' \<mapsto> ''project1'']"

definition state_pending :: pstate where
  "state_pending = snd (install_swenv world0 doc_deferred base0 state0)"

text \<open>A reserved path between two other entries, under the plural and under the
  singular key.\<close>

definition doc_reserved_second :: pydict where
  "doc_reserved_second =
     [(''files'', PList [PStr ''a.py'', reserved_entry, PStr ''b.py''])]"

definition doc_reserved_middle :: pydict where
  "doc_reserved_middle =
     [(''file'', PList [PStr ''a.py'', PStr ''cpd_software_env/x.py'', PStr ''b.py''])]"



text \<open>An environment with a token and a project identifier only.\<close>

definition env_token_project :: "string \<Rightarrow> string option" where
  "env_token_project = [''USER_ACCESS_TOKEN'' \<mapsto> ''tok'', ''PROJECT_ID'' \<mapsto> ''project1'']"

section \<open>Dictionaries\<close>

lemma map_of_dict_set: "map_of (dict_set k v d) k' = (if k' = k then Some v else map_of d k')"
  by (induction d) auto

lemma map_of_dict_del: "map_of (dict_del k d) k' = (if k' = k then None else map_of d k')"
  by (induction d) (auto simp: dict_del_def)

lemma get_dict_set: "get (dict_set k v d) k' = (if k' = k then v else get d k')"
  by (simp add: get_def get_default_def map_of_dict_set)

text \<open>The equations that evaluate the normalizer on a concrete document.\<close>

lemmas eval_normalize =
  normalize_swenv_def fold_keys_def fold_key_def coerce_lists_def coerce_list_def norm_key_def
  norm_file_entry_def norm_asset_entry_def check_reserved_def get_def get_default_def
  has_key_def path_join_val_def as_path_def mk_path_def path_root_def path_join_def
  path_absolute_def path_str_def startswith_def reserved_prefix_def path_suffix_def
  path_stem_def path_name_def has_suffix_def after_dot_def dict_del_def base0_def cwd0_def

text \<open>The equations that evaluate paths, the installer and the requirements.\<close>

lemmas eval_paths =
  mk_path_def path_root_def path_join_def path_absolute_def path_str_def path_parent_def
  path_name_def path_suffix_def path_stem_def has_suffix_def after_dot_def as_path_def
  path_join_val_def startswith_def

lemmas eval_install =
  install_swenv_def install_key_def install_files_def install_file_entry_def
  file_entry_path_def dict_entry_path_def is_dict_def set_sys_path_msg_def py_str_def
  install_swenv_dir_def install_swenv_file_def my_print_msg_def print_line_def
  getenv_set_def getenv_str_def not_found_msg_def get_def get_default_def quote_def

lemmas eval_pip =
  install_pip_packages_list_def map_pip_packages_list_to_reqfile_def pip_line_def
  iter_values_def run_pip_def os_path_join_def

lemmas eval_download =
  download_pending_assets_def download_assets_def download_asset_def is_list_def
  install_assets_def running_in_ws_jupyterlab_def msg_call_build_def
  msg_dynamic_download_def cpd_conn_of_def

section \<open>Path resolution of file entries\<close>

text \<open>
  A mapping entry whose path is a non-empty string outside the reserved prefix gets the
  root \<open>base / path\<close>; whatever root the entry had is overwritten and never read.
\<close>

lemma norm_file_entry_mapping:
  assumes "get d ''path'' = PStr p" "p \<noteq> []" "\<not> startswith p reserved_prefix"
  shows "norm_file_entry kind base (PDict d) =
           Inr (PDict (dict_set ''root'' (PStr (path_str (path_join base (mk_path p)))) d))"
  using assms
  by (simp add: norm_file_entry_def get_def get_default_def path_join_val_def as_path_def
      check_reserved_def map_of_dict_set split: option.splits)

lemma norm_file_entry_no_path:
  "\<not> has_key d ''path'' \<Longrightarrow> norm_file_entry kind base (PDict d) = Inl (AssertionError [])"
  by (simp add: norm_file_entry_def has_key_def get_def get_default_def)

text \<open>
  C1. For the entry \<^verbatim>\<open>{path: "lib.py", root: "sub"}\<close> and the base directory \<^verbatim>\<open>/base\<close>,
  normalization sets the root to \<^verbatim>\<open>/base/lib.py\<close>, the base directory joined with the
  entry's path. The base directory joined with the entry's own root is \<^verbatim>\<open>/base/sub\<close>.
\<close>

theorem explicit_root_is_overwritten:
  "normalize_swenv cwd0 doc_explicit_root base0 =
     ([], Inr [(''files'',
        PList [PDict [(''path'', PStr ''lib.py''), (''root'', PStr ''/base/lib.py'')]])])
   \<and> path_str (path_join base0 (mk_path ''sub'')) = ''/base/sub''"
  by (simp add: normalize_swenv_def doc_explicit_root_def base0_def cwd0_def fold_keys_def
      fold_key_def coerce_lists_def coerce_list_def norm_key_def norm_file_entry_def
      get_def get_default_def path_join_val_def as_path_def mk_path_def path_root_def
      path_join_def path_absolute_def path_str_def check_reserved_def startswith_def
      reserved_prefix_def)

section \<open>Key folding\<close>

text \<open>
  A pair of keys that are both present ends normalization with an \<^verbatim>\<open>AssertionError\<close>;
  a singular key alone is removed and its value, unchanged, is stored under the plural
  key.
\<close>

lemma fold_key_conflict:
  "has_key d sing \<Longrightarrow> has_key d plur \<Longrightarrow> fold_key sing plur msg d = ([msg], Inl (AssertionError []))"
  by (auto simp: fold_key_def has_key_def)

lemma fold_key_renames:
  assumes "map_of d sing = Some v" "\<not> has_key d plur" "sing \<noteq> plur"
  shows "\<exists>d'. fold_key sing plur msg d = ([], Inr d') \<and> map_of d' plur = Some v
              \<and> \<not> has_key d' sing"
  using assms by (simp add: fold_key_def has_key_def map_of_dict_set map_of_dict_del)

lemma fold_key_absent:
  "\<not> has_key d sing \<Longrightarrow> fold_key sing plur msg d = ([], Inr d)"
  by (simp add: fold_key_def has_key_def)

lemma key_conflict_fails:
  assumes "(has_key d ''file'' \<and> has_key d ''files'')
         \<or> (has_key d ''module'' \<and> has_key d ''modules'')
         \<or> (has_key d ''asset'' \<and> has_key d ''assets'')"
  shows "snd (normalize_swenv cwd d sp) = Inl (AssertionError [])"
proof -
  have k: "has_key d' k" if "fold_key sing plur msg d0 = (out, Inr d')" "has_key d0 k" "k \<noteq> sing"
    for d0 d' sing plur msg out k
    using that
    by (auto simp: fold_key_def has_key_def map_of_dict_set map_of_dict_del
        split: option.splits if_splits)
  have f: "snd (fold_key sing plur msg d0) = Inl (AssertionError []) \<or> (\<exists>d'. fold_key sing plur msg d0 = ([], Inr d'))"
    for sing plur msg d0
    by (auto simp: fold_key_def split: option.splits)
  have "snd (fold_keys d) = Inl (AssertionError [])"
  proof (cases "has_key d ''file'' \<and> has_key d ''files''")
    case True
    then show ?thesis by (simp add: fold_keys_def fold_key_conflict)
  next
    case nf: False
    obtain o1 r1 where r1: "fold_key ''file'' ''files'' conflict_msg_file d = (o1, r1)"
      by (cases "fold_key ''file'' ''files'' conflict_msg_file d")
    show ?thesis
    proof (cases r1)
      case (Inl e)
      with r1 f[of "''file''" "''files''" conflict_msg_file d] show ?thesis
        by (auto simp: fold_keys_def)
    next
      case (Inr d1)
      note d1 = r1[unfolded Inr]
      show ?thesis
      proof (cases "has_key d ''module'' \<and> has_key d ''modules''")
        case True
        then have "has_key d1 ''module''" "has_key d1 ''modules''"
          using k[OF d1] by auto
        then show ?thesis using d1 by (simp add: fold_keys_def fold_key_conflict)
      next
        case nm: False
        with nf assms have a: "has_key d ''asset''" "has_key d ''assets''" by auto
        then have a1: "has_key d1 ''asset''" "has_key d1 ''assets''" using k[OF d1] by auto
        obtain o2 r2 where r2: "fold_key ''module'' ''modules'' conflict_msg_file d1 = (o2, r2)"
          by (cases "fold_key ''module'' ''modules'' conflict_msg_file d1")
        show ?thesis
        proof (cases r2)
          case (Inl e)
          with r2 d1 f[of "''module''" "''modules''" conflict_msg_file d1] show ?thesis
            by (auto simp: fold_keys_def)
        next
          case (Inr d2)
          note d2 = r2[unfolded Inr]
          have "has_key d2 ''asset''" "has_key d2 ''assets''" using k[OF d2] a1 by auto
          then show ?thesis using d1 d2 by (simp add: fold_keys_def fold_key_conflict)
        qed
      qed
    qed
  qed
  then show ?thesis
    by (cases "fold_keys d") (auto simp: normalize_swenv_def Let_def split: sum.splits)
qed

text \<open>
  C4. A document with both \<^verbatim>\<open>module\<close> and \<^verbatim>\<open>modules\<close> fails with an \<^verbatim>\<open>AssertionError\<close>
  that has no message, after printing a line that names the keys \<^verbatim>\<open>file\<close> and \<^verbatim>\<open>files\<close>.
\<close>

theorem module_conflict_names_file_keys:
  "normalize_swenv cwd0 doc_module_conflict base0 =
     ([''Error: you can use either key 'file' or 'files' but not both together.''],
      Inl (AssertionError []))"
  by (simp add: normalize_swenv_def doc_module_conflict_def fold_keys_def fold_key_def
      has_key_def conflict_msg_file_def)

section \<open>Asset entries\<close>

lemma check_reserved_hit:
  "get d ''path'' = PStr p \<Longrightarrow> startswith p reserved_prefix \<Longrightarrow>
   check_reserved kind d = Inl (ValueError (reserved_msg kind p))"
  by (simp add: check_reserved_def)




text \<open>
  A plain string outside the reserved prefix is expanded by its suffix, a mapping with
  such a path is returned as it is, and the shorthand \<^verbatim>\<open>foo.py\<close> gives the same entry as
  its explicit mapping.
\<close>

lemma norm_asset_entry_expand:
  assumes "\<not> startswith s reserved_prefix"
  shows "norm_asset_entry (PStr s) =
     Inr (if path_suffix (mk_path s) = ''.py''
          then PDict [(''name'', PStr (path_stem (mk_path s))), (''path'', PStr s),
                      (''asset_type'', PStr ''script'')]
          else PDict [(''name'', PStr s), (''path'', PStr s), (''asset_type'', PStr ''data_asset'')])"
  using assms by (simp add: norm_asset_entry_def check_reserved_def get_def get_default_def)

lemma norm_asset_entry_passes:
  assumes "get d ''path'' = PStr p" "\<not> startswith p reserved_prefix"
  shows "norm_asset_entry (PDict d) = Inr (PDict d)"
  using assms by (simp add: norm_asset_entry_def check_reserved_def)

lemma asset_shorthand_equivalence:
  "norm_asset_entry (PStr ''foo.py'')
     = norm_asset_entry (PDict [(''name'', PStr ''foo''), (''path'', PStr ''foo.py''),
                                (''asset_type'', PStr ''script'')])"
  by (simp add: norm_asset_entry_def check_reserved_def get_def get_default_def eval_paths
      reserved_prefix_def)

text \<open>
  C5. The documented asset entry \<^verbatim>\<open>{name: "My project asset", type: "data_asset"}\<close> does
  not pass through: the prefix check calls \<^verbatim>\<open>startswith\<close> on its missing path and
  normalization raises \<^verbatim>\<open>AttributeError\<close>.
\<close>

theorem asset_mapping_without_path_raises:
  "normalize_swenv cwd0 doc_docstring_assets base0 = ([], Inl AttributeError)"
  by (simp add: normalize_swenv_def doc_docstring_assets_def fold_keys_def fold_key_def
      coerce_lists_def coerce_list_def norm_key_def norm_asset_entry_def check_reserved_def
      get_def get_default_def)

section \<open>The reserved prefix\<close>

lemma reserved_nonempty: "startswith p reserved_prefix \<Longrightarrow> p \<noteq> []"
  by (auto simp: startswith_def reserved_prefix_def)

lemma norm_file_entry_reserved:
  assumes "entry_path e = Some p" "startswith p reserved_prefix"
  shows "norm_file_entry kind base e = Inl (ValueError (reserved_msg kind p))"
proof (cases e)
  case (PStr s)
  with assms show ?thesis
    by (simp add: entry_path_def norm_file_entry_def check_reserved_def get_def get_default_def)
next
  case (PDict d)
  with assms have p: "get d ''path'' = PStr p"
    by (auto simp: entry_path_def split: pyval.splits)
  have "get (dict_set ''root'' v d) ''path'' = PStr p" for v
    using p by (simp add: get_dict_set)
  with p assms(2) reserved_nonempty[OF assms(2)] PDict show ?thesis
    by (simp add: norm_file_entry_def path_join_val_def as_path_def check_reserved_hit
        get_def get_default_def split: option.splits)
qed (use assms in \<open>simp_all add: entry_path_def\<close>)

lemma norm_asset_entry_reserved:
  assumes "entry_path e = Some p" "startswith p reserved_prefix"
  shows "norm_asset_entry e = Inl (ValueError (reserved_msg ''asset'' p))"
proof (cases e)
  case (PStr s)
  with assms show ?thesis
    by (simp add: entry_path_def norm_asset_entry_def check_reserved_def get_def get_default_def)
next
  case (PDict d)
  with assms show ?thesis
    by (auto simp: entry_path_def norm_asset_entry_def check_reserved_hit split: pyval.splits)
qed (use assms in \<open>simp_all add: entry_path_def\<close>)

lemma norm_entries_append_fail:
  "norm_entries f xs = Inr xs' \<Longrightarrow> f e = Inl err \<Longrightarrow> norm_entries f (xs @ e # ys) = Inl err"
  by (induction xs arbitrary: xs') (auto split: sum.splits)

lemma norm_entries_member_fail:
  "e \<in> set xs \<Longrightarrow> f e = Inl err \<Longrightarrow> \<exists>err'. norm_entries f xs = Inl err'"
  by (induction xs) (auto split: sum.splits)


lemma norm_key_fail:
  "map_of d k = Some (PList es) \<Longrightarrow> e \<in> set es \<Longrightarrow> f e = Inl err \<Longrightarrow>
   \<exists>err'. norm_key k f kind d = Inl err'"
  using norm_entries_member_fail[of e es f err]
  by (auto simp: norm_key_def split: sum.splits)

lemma norm_key_other:
  "norm_key k f kind d = Inr d' \<Longrightarrow> k' \<noteq> k \<Longrightarrow> map_of d' k' = map_of d k'"
  by (auto simp: norm_key_def map_of_dict_set split: option.splits pyval.splits sum.splits if_splits list.splits)

lemma fold_key_keeps:
  "fold_key sing plur msg d = (out, Inr d') \<Longrightarrow> k \<noteq> sing \<Longrightarrow> map_of d k = Some v \<Longrightarrow>
   map_of d' k = Some v"
  by (auto simp: fold_key_def has_key_def map_of_dict_set map_of_dict_del
      split: option.splits if_splits)

lemma fold_keys_keeps:
  assumes "fold_keys d = (out, Inr d')" "map_of d k = Some v"
    "k \<noteq> ''file''" "k \<noteq> ''module''" "k \<noteq> ''asset''"
  shows "map_of d' k = Some v"
  using assms unfolding fold_keys_def
  by (auto split: prod.splits sum.splits dest!: fold_key_keeps)

lemma coerce_list_keeps:
  "map_of d k = Some (PList xs) \<Longrightarrow> map_of (coerce_list k' d) k = Some (PList xs)"
  by (auto simp: coerce_list_def map_of_dict_set split: option.splits pyval.splits)

lemma coerce_lists_keeps:
  "map_of d k = Some (PList xs) \<Longrightarrow> map_of (coerce_lists d) k = Some (PList xs)"
  by (simp add: coerce_lists_def coerce_list_keeps)

lemma normalize_never_succeeds:
  assumes k: "k = ''files'' \<or> k = ''modules'' \<or> k = ''assets''"
    and d: "map_of doc k = Some (PList es)" and e: "e \<in> set es"
    and p: "entry_path e = Some p" "startswith p reserved_prefix"
  shows "\<exists>err. snd (normalize_swenv cwd doc sp) = Inl err"
proof (cases "fold_keys doc")
  case (Pair out r)
  show ?thesis
  proof (cases r)
    case (Inl err)
    with Pair show ?thesis by (simp add: normalize_swenv_def)
  next
    case (Inr d0)
    note d0 = Pair Inr
    let ?base = "path_absolute cwd sp"
    let ?c = "coerce_lists d0"
    have c: "map_of ?c k = Some (PList es)"
      using fold_keys_keeps[of doc out d0 k] d0 d k by (auto intro: coerce_lists_keeps)
    have ff: "norm_file_entry kind ?base e = Inl (ValueError (reserved_msg kind p))" for kind
      using p by (rule norm_file_entry_reserved)
    have fa: "norm_asset_entry e = Inl (ValueError (reserved_msg ''asset'' p))"
      using p by (rule norm_asset_entry_reserved)
    show ?thesis
    proof (cases "norm_key ''files'' (norm_file_entry ''file'' ?base) ''file'' ?c")
      case (Inl err)
      with d0 show ?thesis by (simp add: normalize_swenv_def)
    next
      case (Inr d1)
      note d1 = this
      have nf: "k \<noteq> ''files''"
        using norm_key_fail[where f = "norm_file_entry ''file'' ?base" and e = e and d = "?c"
            and k = "''files''" and es = es and kind = "''file''"] e ff c d1 by auto
      have c1: "map_of d1 k = Some (PList es)"
        using norm_key_other[OF d1, of k] nf c by simp
      show ?thesis
      proof (cases "norm_key ''modules'' (norm_file_entry ''module'' ?base) ''module'' d1")
        case (Inl err)
        with d0 d1 show ?thesis by (simp add: normalize_swenv_def)
      next
        case (Inr d2)
        note d2 = this
        have nm: "k \<noteq> ''modules''"
          using norm_key_fail[where f = "norm_file_entry ''module'' ?base" and e = e and d = d1
              and k = "''modules''" and es = es and kind = "''module''"] e ff c1 d2 by auto
        have c2: "map_of d2 ''assets'' = Some (PList es)"
          using norm_key_other[OF d2, of k] nm nf k c1 by auto
        obtain err where "norm_key ''assets'' norm_asset_entry ''asset'' d2 = Inl err"
          using norm_key_fail[where f = norm_asset_entry and e = e, OF c2 e fa] by blast
        with d0 d1 d2 show ?thesis by (simp add: normalize_swenv_def)
      qed
    qed
  qed
qed

lemma norm_key_append_fail:
  assumes "map_of d k = Some (PList (xs @ e # ys))" "norm_entries f xs = Inr xs'" "f e = Inl err"
  shows "norm_key k f kind d = Inl err"
  using assms norm_entries_append_fail[OF assms(2,3), of ys]
  by (simp add: norm_key_def)

lemma normalize_fold_fails:
  "fold_keys doc = (out, Inl err) \<Longrightarrow> normalize_swenv cwd doc sp = (out, Inl err)"
  by (simp add: normalize_swenv_def)

lemma normalize_files_fail:
  "fold_keys doc = (out, Inr d0) \<Longrightarrow>
   norm_key ''files'' (norm_file_entry ''file'' (path_absolute cwd sp)) ''file'' (coerce_lists d0)
     = Inl err \<Longrightarrow>
   normalize_swenv cwd doc sp = (out, Inl err)"
  by (simp add: normalize_swenv_def)

lemma normalize_modules_fail:
  "fold_keys doc = (out, Inr d0) \<Longrightarrow>
   norm_key ''files'' (norm_file_entry ''file'' (path_absolute cwd sp)) ''file'' (coerce_lists d0)
     = Inr d1 \<Longrightarrow>
   norm_key ''modules'' (norm_file_entry ''module'' (path_absolute cwd sp)) ''module'' d1
     = Inl err \<Longrightarrow>
   normalize_swenv cwd doc sp = (out, Inl err)"
  by (simp add: normalize_swenv_def)

lemma normalize_assets_last:
  "fold_keys doc = (out, Inr d0) \<Longrightarrow>
   norm_key ''files'' (norm_file_entry ''file'' (path_absolute cwd sp)) ''file'' (coerce_lists d0)
     = Inr d1 \<Longrightarrow>
   norm_key ''modules'' (norm_file_entry ''module'' (path_absolute cwd sp)) ''module'' d1
     = Inr d2 \<Longrightarrow>
   normalize_swenv cwd doc sp = (out, norm_key ''assets'' norm_asset_entry ''asset'' d2)"
  by (simp add: normalize_swenv_def)

lemma fold_keys_no_singular:
  "\<not> has_key doc ''file'' \<Longrightarrow> \<not> has_key doc ''module'' \<Longrightarrow> \<not> has_key doc ''asset'' \<Longrightarrow>
   fold_keys doc = ([], Inr doc)"
  by (simp add: fold_keys_def fold_key_def has_key_def)

text \<open>
  C6, as amended. For an entry in either form whose path begins with the reserved prefix,
  the loop step that normalizes it raises the value error naming its path (as a file, a
  module or an asset), and the loop raises that error when the entries before it are
  accepted. Normalization of a document that lists the entry under \<^verbatim>\<open>files\<close>,
  \<^verbatim>\<open>modules\<close> or \<^verbatim>\<open>assets\<close> never succeeds, and it raises that value error when
  everything before the entry succeeds: key folding, the loops of the keys before, and
  the entries before it in its list. In every other case the exception is that of the
  first failing step: of key folding, else of the \<^verbatim>\<open>files\<close> loop, else of the
  \<^verbatim>\<open>modules\<close> loop, else of the \<^verbatim>\<open>assets\<close> loop, and within a loop of the first
  entry that fails.
\<close>

theorem reserved_prefix_rejected:
  assumes "entry_path e = Some p" "startswith p reserved_prefix"
  shows "norm_file_entry ''file'' base e = Inl (ValueError (reserved_msg ''file'' p))
       \<and> norm_file_entry ''module'' base e = Inl (ValueError (reserved_msg ''module'' p))
       \<and> norm_asset_entry e = Inl (ValueError (reserved_msg ''asset'' p))
       \<and> (\<forall>kind xs xs' ys. norm_entries (norm_file_entry kind base) xs = Inr xs' \<longrightarrow>
             norm_entries (norm_file_entry kind base) (xs @ e # ys)
               = Inl (ValueError (reserved_msg kind p)))
       \<and> (\<forall>xs xs' ys. norm_entries norm_asset_entry xs = Inr xs' \<longrightarrow>
             norm_entries norm_asset_entry (xs @ e # ys)
               = Inl (ValueError (reserved_msg ''asset'' p)))
       \<and> (\<forall>k es. (k = ''files'' \<or> k = ''modules'' \<or> k = ''assets'')
               \<and> map_of doc k = Some (PList es) \<and> e \<in> set es \<longrightarrow>
             (\<exists>err. snd (normalize_swenv cwd doc sp) = Inl err))
       \<and> (\<forall>out d0 xs xs' ys.
             fold_keys doc = (out, Inr d0)
             \<and> map_of (coerce_lists d0) ''files'' = Some (PList (xs @ e # ys))
             \<and> norm_entries (norm_file_entry ''file'' (path_absolute cwd sp)) xs = Inr xs' \<longrightarrow>
             normalize_swenv cwd doc sp = (out, Inl (ValueError (reserved_msg ''file'' p))))
       \<and> (\<forall>out d0 d1 xs xs' ys.
             fold_keys doc = (out, Inr d0)
             \<and> norm_key ''files'' (norm_file_entry ''file'' (path_absolute cwd sp)) ''file''
                  (coerce_lists d0) = Inr d1
             \<and> map_of d1 ''modules'' = Some (PList (xs @ e # ys))
             \<and> norm_entries (norm_file_entry ''module'' (path_absolute cwd sp)) xs = Inr xs' \<longrightarrow>
             normalize_swenv cwd doc sp = (out, Inl (ValueError (reserved_msg ''module'' p))))
       \<and> (\<forall>out d0 d1 d2 xs xs' ys.
             fold_keys doc = (out, Inr d0)
             \<and> norm_key ''files'' (norm_file_entry ''file'' (path_absolute cwd sp)) ''file''
                  (coerce_lists d0) = Inr d1
             \<and> norm_key ''modules'' (norm_file_entry ''module'' (path_absolute cwd sp)) ''module''
                  d1 = Inr d2
             \<and> map_of d2 ''assets'' = Some (PList (xs @ e # ys))
             \<and> norm_entries norm_asset_entry xs = Inr xs' \<longrightarrow>
             normalize_swenv cwd doc sp = (out, Inl (ValueError (reserved_msg ''asset'' p))))
       \<and> (\<forall>xs xs' ys.
             \<not> has_key doc ''file'' \<and> \<not> has_key doc ''module'' \<and> \<not> has_key doc ''asset''
             \<and> map_of doc ''files'' = Some (PList (xs @ e # ys))
             \<and> norm_entries (norm_file_entry ''file'' (path_absolute cwd sp)) xs = Inr xs' \<longrightarrow>
             normalize_swenv cwd doc sp = ([], Inl (ValueError (reserved_msg ''file'' p))))
       \<and> (\<forall>out err. fold_keys doc = (out, Inl err) \<longrightarrow>
             normalize_swenv cwd doc sp = (out, Inl err))
       \<and> (\<forall>out d0 err.
             fold_keys doc = (out, Inr d0)
             \<and> norm_key ''files'' (norm_file_entry ''file'' (path_absolute cwd sp)) ''file''
                  (coerce_lists d0) = Inl err \<longrightarrow>
             normalize_swenv cwd doc sp = (out, Inl err))
       \<and> (\<forall>out d0 d1 err.
             fold_keys doc = (out, Inr d0)
             \<and> norm_key ''files'' (norm_file_entry ''file'' (path_absolute cwd sp)) ''file''
                  (coerce_lists d0) = Inr d1
             \<and> norm_key ''modules'' (norm_file_entry ''module'' (path_absolute cwd sp)) ''module''
                  d1 = Inl err \<longrightarrow>
             normalize_swenv cwd doc sp = (out, Inl err))
       \<and> (\<forall>out d0 d1 d2.
             fold_keys doc = (out, Inr d0)
             \<and> norm_key ''files'' (norm_file_entry ''file'' (path_absolute cwd sp)) ''file''
                  (coerce_lists d0) = Inr d1
             \<and> norm_key ''modules'' (norm_file_entry ''module'' (path_absolute cwd sp)) ''module''
                  d1 = Inr d2 \<longrightarrow>
             normalize_swenv cwd doc sp
               = (out, norm_key ''assets'' norm_asset_entry ''asset'' d2))
       \<and> (\<forall>k f kind d xs xs' x ys err.
             map_of d k = Some (PList (xs @ x # ys)) \<and> norm_entries f xs = Inr xs'
             \<and> f x = Inl err \<longrightarrow>
             norm_key k f kind d = Inl err)"
proof -
  let ?b = "path_absolute cwd sp"
  have ff: "norm_file_entry kind b e = Inl (ValueError (reserved_msg kind p))" for kind b
    using assms by (rule norm_file_entry_reserved)
  have fa: "norm_asset_entry e = Inl (ValueError (reserved_msg ''asset'' p))"
    using assms by (rule norm_asset_entry_reserved)
  have old1: "norm_entries (norm_file_entry kind base) (xs @ e # ys)
               = Inl (ValueError (reserved_msg kind p))"
    if "norm_entries (norm_file_entry kind base) xs = Inr xs'" for kind xs xs' ys
    using norm_entries_append_fail[OF that ff] .
  have old2: "norm_entries norm_asset_entry (xs @ e # ys)
               = Inl (ValueError (reserved_msg ''asset'' p))"
    if "norm_entries norm_asset_entry xs = Inr xs'" for xs xs' ys
    using norm_entries_append_fail[OF that fa] .
  have old3: "\<exists>err. snd (normalize_swenv cwd doc sp) = Inl err"
    if "(k = ''files'' \<or> k = ''modules'' \<or> k = ''assets'')
         \<and> map_of doc k = Some (PList es) \<and> e \<in> set es" for k es
    using normalize_never_succeeds[OF _ _ _ assms, of k doc es cwd sp] that by blast
  have n1: "normalize_swenv cwd doc sp = (out, Inl (ValueError (reserved_msg ''file'' p)))"
    if "fold_keys doc = (out, Inr d0)"
       "map_of (coerce_lists d0) ''files'' = Some (PList (xs @ e # ys))"
       "norm_entries (norm_file_entry ''file'' ?b) xs = Inr xs'" for out d0 xs xs' ys
    using normalize_files_fail[OF that(1) norm_key_append_fail[OF that(2,3) ff]] .
  have n2: "normalize_swenv cwd doc sp = (out, Inl (ValueError (reserved_msg ''module'' p)))"
    if "fold_keys doc = (out, Inr d0)"
       "norm_key ''files'' (norm_file_entry ''file'' ?b) ''file'' (coerce_lists d0) = Inr d1"
       "map_of d1 ''modules'' = Some (PList (xs @ e # ys))"
       "norm_entries (norm_file_entry ''module'' ?b) xs = Inr xs'" for out d0 d1 xs xs' ys
    using normalize_modules_fail[OF that(1,2) norm_key_append_fail[OF that(3,4) ff]] .
  have n3: "normalize_swenv cwd doc sp = (out, Inl (ValueError (reserved_msg ''asset'' p)))"
    if "fold_keys doc = (out, Inr d0)"
       "norm_key ''files'' (norm_file_entry ''file'' ?b) ''file'' (coerce_lists d0) = Inr d1"
       "norm_key ''modules'' (norm_file_entry ''module'' ?b) ''module'' d1 = Inr d2"
       "map_of d2 ''assets'' = Some (PList (xs @ e # ys))"
       "norm_entries norm_asset_entry xs = Inr xs'" for out d0 d1 d2 xs xs' ys
    using normalize_assets_last[OF that(1,2,3)] norm_key_append_fail[OF that(4,5) fa, of "''asset''"]
    by simp
  have n0: "normalize_swenv cwd doc sp = ([], Inl (ValueError (reserved_msg ''file'' p)))"
    if "\<not> has_key doc ''file''" "\<not> has_key doc ''module''" "\<not> has_key doc ''asset''"
       "map_of doc ''files'' = Some (PList (xs @ e # ys))"
       "norm_entries (norm_file_entry ''file'' ?b) xs = Inr xs'" for xs xs' ys
    using n1[OF fold_keys_no_singular[OF that(1,2,3)] coerce_lists_keeps[OF that(4)] that(5)] .
  show ?thesis
    apply (intro conjI allI impI)
                  apply (rule ff)
                 apply (rule ff)
                apply (rule fa)
               apply (erule old1)
              apply (erule old2)
             apply (erule old3)
            apply (elim conjE, erule (2) n1)
           apply (elim conjE, erule (3) n2)
          apply (elim conjE, erule (4) n3)
         apply (elim conjE, erule (4) n0)
        apply (erule normalize_fold_fails)
       apply (elim conjE, erule (1) normalize_files_fail)
      apply (elim conjE, erule (2) normalize_modules_fail)
     apply (elim conjE, erule (2) normalize_assets_last)
    apply (elim conjE, erule (2) norm_key_append_fail)
    done
qed

theorem reserved_prefix_rejected_witness:
  "entry_path reserved_entry = Some ''cpd_software_env/x.py''
   \<and> startswith ''cpd_software_env/x.py'' reserved_prefix
   \<and> norm_file_entry ''file'' base0 reserved_entry
       = Inl (ValueError (reserved_msg ''file'' ''cpd_software_env/x.py''))
   \<and> norm_asset_entry reserved_entry
       = Inl (ValueError (reserved_msg ''asset'' ''cpd_software_env/x.py''))
   \<and> (\<exists>err. snd (normalize_swenv cwd0 doc_reserved base0) = Inl err)
   \<and> normalize_swenv cwd0 doc_reserved base0
       = ([], Inl (ValueError (reserved_msg ''file'' ''cpd_software_env/x.py'')))
   \<and> normalize_swenv cwd0 doc_reserved_second base0
       = ([], Inl (ValueError (reserved_msg ''file'' ''cpd_software_env/x.py'')))"
proof -
  have h1: "entry_path reserved_entry = Some ''cpd_software_env/x.py''"
    by (simp add: entry_path_def reserved_entry_def)
  have h2: "startswith ''cpd_software_env/x.py'' reserved_prefix"
    by (simp add: startswith_def reserved_prefix_def)
  have h3: "map_of doc_reserved ''files'' = Some (PList ([] @ reserved_entry # []))"
    by (simp add: doc_reserved_def)
  have k: "\<not> has_key doc_reserved ''file''" "\<not> has_key doc_reserved ''module''"
    "\<not> has_key doc_reserved ''asset''"
    by (simp_all add: doc_reserved_def has_key_def)
  have e: "norm_entries (norm_file_entry ''file'' (path_absolute cwd0 base0)) [] = Inr []"
    by simp
  note T = reserved_prefix_rejected[OF h1 h2, of base0 doc_reserved cwd0 base0]
  note a = T[THEN conjunct1]
  note b = T[THEN conjunct2, THEN conjunct2, THEN conjunct1]
  note N = T[THEN conjunct2, THEN conjunct2, THEN conjunct2, THEN conjunct2, THEN conjunct2,
      THEN conjunct2, THEN conjunct2, THEN conjunct2, THEN conjunct2, THEN conjunct1, rule_format]
  have ex: "\<exists>err. snd (normalize_swenv cwd0 doc_reserved base0) = Inl err"
    using T[THEN conjunct2, THEN conjunct2, THEN conjunct2, THEN conjunct2, THEN conjunct2,
      THEN conjunct1, rule_format, of "''files''" "[reserved_entry]"]
    by (simp add: doc_reserved_def)
  have c: "normalize_swenv cwd0 doc_reserved base0
       = ([], Inl (ValueError (reserved_msg ''file'' ''cpd_software_env/x.py'')))"
    by (rule N[where xs = "[]" and ys = "[]" and xs' = "[]"]) (use k h3 e in blast)
  have h3': "map_of doc_reserved_second ''files''
       = Some (PList ([PStr ''a.py''] @ reserved_entry # [PStr ''b.py'']))"
    by (simp add: doc_reserved_second_def)
  have k': "\<not> has_key doc_reserved_second ''file''" "\<not> has_key doc_reserved_second ''module''"
    "\<not> has_key doc_reserved_second ''asset''"
    by (simp_all add: doc_reserved_second_def has_key_def)
  have e': "norm_entries (norm_file_entry ''file'' (path_absolute cwd0 base0)) [PStr ''a.py'']
       = Inr [PDict [(''name'', PStr ''a.py''), (''path'', PStr ''a.py''), (''root'', PStr ''/base'')]]"
    by (simp add: eval_normalize)
  note T' = reserved_prefix_rejected[OF h1 h2, of base0 doc_reserved_second cwd0 base0]
  note N' = T'[THEN conjunct2, THEN conjunct2, THEN conjunct2, THEN conjunct2, THEN conjunct2,
      THEN conjunct2, THEN conjunct2, THEN conjunct2, THEN conjunct2, THEN conjunct1, rule_format]
  have d: "normalize_swenv cwd0 doc_reserved_second base0
       = ([], Inl (ValueError (reserved_msg ''file'' ''cpd_software_env/x.py'')))"
    by (rule N'[where xs = "[PStr ''a.py'']" and ys = "[PStr ''b.py'']"
          and xs' = "[PDict [(''name'', PStr ''a.py''), (''path'', PStr ''a.py''),
                             (''root'', PStr ''/base'')]]"])
      (use k' h3' e' in blast)
  from h1 h2 a b ex c d show ?thesis by simp
qed

text \<open>
  C6 as stated fails: with an entry that has no path before the reserved one, the
  exception is the \<^verbatim>\<open>AssertionError\<close> of the earlier entry, not a value error.
\<close>

theorem earlier_error_precedes_reserved:
  "reserved_entry \<in> set (entries doc_reserved_after_malformed ''files'')
   \<and> entry_path reserved_entry = Some ''cpd_software_env/x.py''
   \<and> startswith ''cpd_software_env/x.py'' reserved_prefix
   \<and> snd (normalize_swenv cwd0 doc_reserved_after_malformed base0) = Inl (AssertionError [])"
  by (simp add: entries_def doc_reserved_after_malformed_def entry_path_def reserved_entry_def
      startswith_def reserved_prefix_def normalize_swenv_def fold_keys_def fold_key_def
      coerce_lists_def coerce_list_def norm_key_def norm_file_entry_def get_def get_default_def)

section \<open>The fields of normalized entries\<close>
























section \<open>Search path insertion\<close>

text \<open>While \<^verbatim>\<open>sys.path\<close> holds strings only, the membership test of
  \<^verbatim>\<open>_install_swenv_dir\<close> never finds the directory, and the directory is inserted.\<close>

lemma install_swenv_dir_strings:
  assumes "\<And>x. x \<in> set (sys_path s) \<Longrightarrow> \<exists>t. x = StrObj t"
  shows "install_swenv_dir p s = s\<lparr>sys_path := StrObj (path_str p) # sys_path s\<rparr>"
  using assms by (auto simp: install_swenv_dir_def)

text \<open>
  C2. Installing the canonical entry of the directory \<^verbatim>\<open>/base/lib\<close> puts it at the front
  of the search path; installing the same entry again puts it there a second time.
\<close>

theorem directory_inserted_twice:
  "fst (install_swenv world0 doc_lib_dir base0 state0) = None
   \<and> sys_path (snd (install_swenv world0 doc_lib_dir base0 state0))
       = [StrObj ''/base/lib'', StrObj ''/usr/lib/python3'']
   \<and> fst (install_swenv world0 doc_lib_dir base0
             (snd (install_swenv world0 doc_lib_dir base0 state0))) = None
   \<and> sys_path (snd (install_swenv world0 doc_lib_dir base0
                      (snd (install_swenv world0 doc_lib_dir base0 state0))))
       = [StrObj ''/base/lib'', StrObj ''/base/lib'', StrObj ''/usr/lib/python3'']"
  by (simp add: doc_lib_dir_def world0_def state0_def base0_def eval_install eval_paths)

section \<open>The package installer\<close>

text \<open>
  C8. \<^verbatim>\<open>_run_pip\<close> raises exactly when the exit status of the subprocess is not zero,
  and the exception carries the command and the captured output of the subprocess;
  with exit status zero it returns normally. The state it leaves is the one the
  subprocess ran in: the message \<^verbatim>\<open>run ...\<close> has been recorded.
\<close>

theorem pip_exit_status:
  assumes "run_pip w pip_cmd s = (r, s')"
  shows "(fst (subprocess_run w pip_cmd s') \<noteq> 0 \<longrightarrow>
            r = Some (PipInstallFailed pip_cmd (snd (subprocess_run w pip_cmd s'))))
       \<and> (fst (subprocess_run w pip_cmd s') = 0 \<longrightarrow> r = None)
       \<and> s' = my_print_msg (''run '' @ repr w (PList (map PStr pip_cmd))) s"
  using assms by (auto simp: run_pip_def Let_def split: if_splits)

theorem pip_exit_status_witness:
  "fst (run_pip world0 pip_cmd0 (state0\<lparr>reqfile := [''nosuchpkg'']\<rparr>))
     = Some (PipInstallFailed pip_cmd0 ''ERROR: No matching distribution found'')
   \<and> fst (run_pip world0 pip_cmd0 (state0\<lparr>reqfile := [''requests==2.0'']\<rparr>)) = None
   \<and> fst (install_swenv world0 doc_pip_missing base0 state0)
     = Some (PipInstallFailed pip_cmd0 ''ERROR: No matching distribution found'')
   \<and> fst (install_swenv world0 doc_pip_ok base0 state0) = None"
proof -
  obtain r1 s1 where a: "run_pip world0 pip_cmd0 (state0\<lparr>reqfile := [''nosuchpkg'']\<rparr>) = (r1, s1)"
    by (cases "run_pip world0 pip_cmd0 (state0\<lparr>reqfile := [''nosuchpkg'']\<rparr>)")
  obtain r2 s2 where b: "run_pip world0 pip_cmd0 (state0\<lparr>reqfile := [''requests==2.0'']\<rparr>) = (r2, s2)"
    by (cases "run_pip world0 pip_cmd0 (state0\<lparr>reqfile := [''requests==2.0'']\<rparr>)")
  have c: "fst (install_swenv world0 doc_pip_missing base0 state0)
     = Some (PipInstallFailed pip_cmd0 ''ERROR: No matching distribution found'')"
    by (simp add: doc_pip_missing_def pip_cmd0_def world0_def state0_def base0_def eval_install
        eval_pip eval_paths)
  have d: "fst (install_swenv world0 doc_pip_ok base0 state0) = None"
    by (simp add: doc_pip_ok_def pip_cmd0_def world0_def state0_def base0_def eval_install
        eval_pip eval_paths)
  from pip_exit_status[OF a] pip_exit_status[OF b] a b c d show ?thesis
    by (simp add: world0_def state0_def my_print_msg_def getenv_set_def print_line_def)
qed

section \<open>Missing file entries\<close>

lemma for_each_step:
  "f x s = (None, s') \<Longrightarrow> for_each f (x # xs) s = for_each f xs s'"
  by simp

lemma for_each_raise:
  "f x s = (Some e, s') \<Longrightarrow> for_each f (x # xs) s = (Some e, s')"
  by simp

lemma not_found_not_progress:
  "not_found_msg path \<notin> set (entry_msgs w p q)"
  by (simp add: not_found_msg_def entry_msgs_def set_sys_path_msg_def)

text \<open>
  C9, as amended. A file entry whose resolved path is neither a directory nor a file is
  skipped without an exception and the loop goes on with the remaining entries; the
  search path is unchanged; the line \<^verbatim>\<open>Error in install swenv: file ... not found.
  Skipping entry.\<close> is printed to the standard output; the message sink receives the
  progress messages of the entry (\<^verbatim>\<open>set sys.path for '...'\<close>, and \<^verbatim>\<open>dict_path ...\<close> for
  a mapping), which are the same for an entry that exists, and not the diagnostic.
\<close>

theorem missing_entry_skipped:
  assumes "file_entry_path swenv p = Inr q"
    and "\<not> is_dir w (path_join sp q)" "\<not> is_file w (path_join sp q)"
  shows "\<exists>s'. install_file_entry w swenv sp p s = (None, s')
           \<and> sys_path s' = sys_path s
           \<and> PkgMsgs s' = PkgMsgs s @ entry_msgs w p q
           \<and> stdout s' = stdout s @ verbose_lines s (entry_msgs w p q)
                            @ [not_found_msg (path_join sp q)]
           \<and> not_found_msg (path_join sp q) \<notin> set (entry_msgs w p q)
           \<and> for_each (install_file_entry w swenv sp) (p # ps) s
               = for_each (install_file_entry w swenv sp) ps s'"
  using assms
  by (simp add: install_file_entry_def Let_def my_print_msg_def print_line_def
      getenv_set_def entry_msgs_def verbose_lines_def not_found_msg_def set_sys_path_msg_def)

theorem missing_entry_skipped_witness:
  "file_entry_path doc_one_missing
       (PDict [(''name'', PStr ''nofile''), (''path'', PStr ''nofile''), (''root'', PStr ''/base'')])
     = Inr (mk_path ''/base/nofile'')
   \<and> \<not> is_dir world0 (path_join base0 (mk_path ''/base/nofile''))
   \<and> \<not> is_file world0 (path_join base0 (mk_path ''/base/nofile''))
   \<and> fst (install_swenv world0 doc_one_missing base0 state0) = None
   \<and> sys_path (snd (install_swenv world0 doc_one_missing base0 state0))
       = [StrObj ''/base/lib'', StrObj ''/usr/lib/python3'']
   \<and> stdout (snd (install_swenv world0 doc_one_missing base0 state0))
       = [''Error in install swenv: file /base/nofile not found. Skipping entry.'']"
proof -
  let ?p = "PDict [(''name'', PStr ''nofile''), (''path'', PStr ''nofile''), (''root'', PStr ''/base'')]"
  let ?l = "PDict [(''name'', PStr ''lib''), (''path'', PStr ''lib''), (''root'', PStr ''/base'')]"
  have h1: "file_entry_path doc_one_missing ?p = Inr (mk_path ''/base/nofile'')"
    by (simp add: doc_one_missing_def file_entry_path_def dict_entry_path_def get_def
        get_default_def eval_paths)
  have h2: "\<not> is_dir world0 (path_join base0 (mk_path ''/base/nofile''))"
    by (simp add: world0_def base0_def eval_paths)
  have h3: "\<not> is_file world0 (path_join base0 (mk_path ''/base/nofile''))"
    by (simp add: world0_def base0_def eval_paths)
  have ex: "\<exists>s'. install_file_entry world0 doc_one_missing base0 ?p state0 = (None, s')
                \<and> sys_path s' = sys_path state0"
    using missing_entry_skipped[OF h1 h2 h3, of state0 "[?l]"] by blast
  have run: "install_swenv world0 doc_one_missing base0 state0 =
      (None, state0\<lparr>sys_path := [StrObj ''/base/lib'', StrObj ''/usr/lib/python3''],
         PkgMsgs := [''set sys.path for '' @ quote @ ''nofile'' @ quote, ''dict_path /base/nofile'',
                     ''set sys.path for '' @ quote @ ''lib'' @ quote, ''dict_path /base/lib''],
         stdout := [''Error in install swenv: file /base/nofile not found. Skipping entry.'']\<rparr>)"
    by (simp add: doc_one_missing_def world0_def state0_def base0_def eval_install eval_paths)
  from ex h1 h2 h3 run show ?thesis by simp
qed

text \<open>
  C9 as stated fails: after installing a missing entry and a directory, the diagnostic of
  the missing entry is on the standard output and not among the messages of the sink.
\<close>

theorem missing_diagnostic_goes_to_stdout:
  "fst (install_swenv world0 doc_one_missing base0 state0) = None
   \<and> PkgMsgs (snd (install_swenv world0 doc_one_missing base0 state0))
       = [''set sys.path for '' @ quote @ ''nofile'' @ quote, ''dict_path /base/nofile'',
          ''set sys.path for '' @ quote @ ''lib'' @ quote, ''dict_path /base/lib'']
   \<and> stdout (snd (install_swenv world0 doc_one_missing base0 state0))
       = [''Error in install swenv: file /base/nofile not found. Skipping entry.'']
   \<and> ''Error in install swenv: file /base/nofile not found. Skipping entry.''
       \<notin> set (get_msgs (snd (install_swenv world0 doc_one_missing base0 state0)))"
  by (simp add: doc_one_missing_def world0_def state0_def base0_def eval_install eval_paths
      get_msgs_def)

section \<open>The document after normalization\<close>

text \<open>
  When normalization returns, the document left in place is the one returned. When the
  loop raises on an entry, the entries before it are normalized, the entry is as the loop
  body left it, and the entries after it are untouched.
\<close>

lemma entries_left_success:
  "norm_entries f xs = Inr ys \<Longrightarrow> entries_left f g xs = ys"
  by (induction xs arbitrary: ys) (auto split: sum.splits)

lemma entries_left_failure:
  "norm_entries f xs = Inr xs' \<Longrightarrow> f e = Inl err \<Longrightarrow>
   entries_left f g (xs @ e # ys) = xs' @ g e # ys"
  by (induction xs arbitrary: xs') (auto split: sum.splits)

lemma normalize_swenv_left_success:
  assumes "snd (normalize_swenv cwd swenv sp) = Inr d'"
  shows "normalize_swenv_left cwd swenv sp = d'"
  using assms
  by (auto simp: normalize_swenv_def normalize_swenv_left_def Let_def
      split: prod.splits sum.splits)

lemma failed_normalization_leaves_partial_document:
  "snd (normalize_swenv cwd0 doc_reserved_middle base0)
     = Inl (ValueError (reserved_msg ''file'' ''cpd_software_env/x.py''))
   \<and> normalize_swenv_left cwd0 doc_reserved_middle base0
     = [(''files'', PList
          [PDict [(''name'', PStr ''a.py''), (''path'', PStr ''a.py''), (''root'', PStr ''/base'')],
           PDict [(''name'', PStr ''cpd_software_env/x.py''),
                  (''path'', PStr ''cpd_software_env/x.py''), (''root'', PStr ''/base'')],
           PStr ''b.py''])]"
  by (simp add: doc_reserved_middle_def normalize_swenv_left_def key_left_def
      file_entry_left_def eval_normalize dict_del_def)

text \<open>
  The loader stores the document before it normalizes it, and the normalizer works on that
  document in place: a load that fails in the normalizer leaves the partly normalized
  document as the environment, with the initialization flag unchanged.
\<close>

lemma failed_setup_keeps_partial_document:
  "set_swenv_from_file (world0\<lparr>read_swenv_yaml := \<lambda>p. Inr (PDict doc_reserved_middle)\<rparr>)
       cwd0 ''/base/env.yaml'' state0
     = (Some (ValueError (reserved_msg ''file'' ''cpd_software_env/x.py'')),
        state0\<lparr>PkgMsgs := [''set from file: <repr>''],
          SoftwareEnv := PDict [(''files'', PList
            [PDict [(''name'', PStr ''a.py''), (''path'', PStr ''a.py''), (''root'', PStr ''/base'')],
             PDict [(''name'', PStr ''cpd_software_env/x.py''),
                    (''path'', PStr ''cpd_software_env/x.py''), (''root'', PStr ''/base'')],
             PStr ''b.py''])]\<rparr>)"
  by (simp add: set_swenv_from_file_def world0_def state0_def doc_reserved_middle_def
      normalize_swenv_left_def key_left_def file_entry_left_def eval_normalize eval_paths
      my_print_msg_def print_line_def getenv_set_def py_str_def)

section \<open>The guard of the configuration loaders\<close>

lemma set_swenv_from_file_rejected:
  "PkgInitialized s \<Longrightarrow>
   set_swenv_from_file w cwd fpath s
     = (None, print_line ''Error: Software Env is already initialized.'' s)"
  by (simp add: set_swenv_from_file_def)

lemma load_replaces:
  "json_load w (''/project_data/data_asset/cpd_software_env_saved/saved_'' @ name @ ''.json'') = Inr v
   \<Longrightarrow> load w name s = (None, s\<lparr>SoftwareEnv := v\<rparr>)"
  by (simp add: load_def set_swenv_from_jsonfile_def)

text \<open>
  C10. After \<^verbatim>\<open>setup\<close> has normalized and installed a configuration, the flag
  \<^verbatim>\<open>PkgInitialized\<close> is set; a following \<^verbatim>\<open>load\<close> returns normally and replaces the
  environment document.
\<close>

theorem load_replaces_environment_when_initialized:
  "fst (setup_swenv world0 cwd0 ''/base/env.yaml'' state0) = None
   \<and> PkgInitialized state_installed
   \<and> SoftwareEnv state_installed
       = PDict [(''files'', PList [PDict [(''name'', PStr ''lib''), (''path'', PStr ''lib''),
                                         (''root'', PStr ''/base'')]])]
   \<and> load world0 ''other'' state_installed
       = (None, state_installed\<lparr>SoftwareEnv := PDict [(''name'', PStr ''other'')]\<rparr>)"
proof -
  have "setup_swenv world0 cwd0 ''/base/env.yaml'' state0 =
     (None, state0\<lparr>sys_path := [StrObj ''/base/lib'', StrObj ''/usr/lib/python3''],
        PkgMsgs := [''set from file: <repr>'', ''set sys.path for '' @ quote @ ''lib'' @ quote,
                    ''dict_path /base/lib''],
        SoftwareEnv := PDict [(''files'', PList [PDict [(''name'', PStr ''lib''),
                       (''path'', PStr ''lib''), (''root'', PStr ''/base'')]])],
        PkgInitialized := True\<rparr>)"
    by (simp add: setup_swenv_def set_swenv_from_file_def world0_def state0_def
        eval_normalize eval_install eval_paths)
  then show ?thesis
    by (simp add: state_installed_def load_def set_swenv_from_jsonfile_def world0_def)
qed

section \<open>What the installer's steps leave unchanged\<close>

lemma kept_refl: "kept s s"
  by (simp add: kept_def env_kept_def)

lemma kept_trans: "kept s t \<Longrightarrow> kept t u \<Longrightarrow> kept s u"
  by (simp add: kept_def env_kept_def)

lemma kept_my_print_msg: "kept s (my_print_msg m s)"
  by (simp add: kept_def env_kept_def my_print_msg_def print_line_def Let_def)

lemma kept_print_line: "kept s (print_line l s)"
  by (simp add: kept_def env_kept_def print_line_def)

lemma kept_for_each:
  assumes "\<And>x s. kept s (snd (f x s))"
  shows "kept s (snd (for_each f xs s))"
proof (induction xs arbitrary: s)
  case Nil
  show ?case by (simp add: kept_refl)
next
  case (Cons x xs)
  show ?case
  proof (cases "f x s")
    case (Pair r s1)
    have k1: "kept s s1" using assms[of s x] Pair by simp
    show ?thesis
    proof (cases r)
      case None
      with Pair show ?thesis using kept_trans[OF k1 Cons.IH[of s1]] by simp
    next
      case (Some e)
      with Pair k1 show ?thesis by simp
    qed
  qed
qed

lemma kept_install_swenv_dir: "kept s (install_swenv_dir p s)"
  by (simp add: kept_def env_kept_def install_swenv_dir_def)

lemma kept_install_swenv_file: "kept s (install_swenv_file p s)"
  by (simp add: kept_def env_kept_def install_swenv_file_def Let_def)

lemma kept_install_file_entry: "kept s (snd (install_file_entry w swenv sp p s))"
proof -
  have a: "kept s (my_print_msg m2 (my_print_msg m1 s))" for m1 m2
    by (rule kept_trans[OF kept_my_print_msg kept_my_print_msg])
  have b: "kept s t \<Longrightarrow> kept s (install_swenv_dir q t)" for t q
    by (rule kept_trans[OF _ kept_install_swenv_dir])
  have c: "kept s t \<Longrightarrow> kept s (install_swenv_file q t)" for t q
    by (rule kept_trans[OF _ kept_install_swenv_file])
  have d: "kept s t \<Longrightarrow> kept s (print_line l t)" for t l
    by (rule kept_trans[OF _ kept_print_line])
  show ?thesis
    by (auto simp: install_file_entry_def Let_def split: sum.splits
        intro!: a b c d kept_my_print_msg)
qed

lemma kept_install_files: "kept s (snd (install_files w swenv sp s))"
  unfolding install_files_def Let_def
  by (rule kept_for_each) (rule kept_install_file_entry)

lemma kept_pip_line: "kept s (snd (pip_line w dep s))"
  by (auto simp: pip_line_def kept_def env_kept_def print_line_def
      split: pyval.splits sum.splits)

lemma kept_reqfile: "kept s (s\<lparr>reqfile := l\<rparr>)"
  by (simp add: kept_def env_kept_def)

lemma kept_map_pip: "kept s (snd (map_pip_packages_list_to_reqfile w piplist s))"
proof (cases "iter_values piplist")
  case (Inl e)
  then show ?thesis by (simp add: map_pip_packages_list_to_reqfile_def kept_reqfile)
next
  case (Inr deps)
  have "kept (s\<lparr>reqfile := []\<rparr>) (snd (for_each (pip_line w) deps (s\<lparr>reqfile := []\<rparr>)))"
    by (rule kept_for_each) (rule kept_pip_line)
  with Inr show ?thesis
    by (simp add: map_pip_packages_list_to_reqfile_def kept_trans[OF kept_reqfile])
qed

lemma kept_run_pip: "kept s (snd (run_pip w c s))"
  by (simp add: run_pip_def Let_def kept_my_print_msg)

lemma kept_pip_conf:
  "kept s ((my_print_msg m s)\<lparr>environ := (environ s)(''PIP_CONFIG_FILE'' \<mapsto> v)\<rparr>)"
  by (simp add: kept_def env_kept_def my_print_msg_def print_line_def Let_def)

lemma kept_install_pip: "kept s (snd (install_pip_packages_list w piplist s))"
proof -
  let ?conf = "os_path_join (path_str (pkg_dir w)) ''pip.conf''"
  let ?s1 = "if is_file w (mk_path ?conf)
             then (my_print_msg (''Setting PIP_CONFIG_FILE='' @ ?conf) s)
                    \<lparr>environ := (environ s)(''PIP_CONFIG_FILE'' \<mapsto> ?conf)\<rparr>
             else s"
  have k1: "kept s ?s1" by (simp add: kept_pip_conf kept_refl)
  obtain r s2 where m: "map_pip_packages_list_to_reqfile w piplist ?s1 = (r, s2)"
    by (cases "map_pip_packages_list_to_reqfile w piplist ?s1")
  have k2: "kept s s2" using kept_trans[OF k1 kept_map_pip[of ?s1 w piplist]] m by simp
  show ?thesis
  proof (cases r)
    case None
    have "kept s2 (snd (run_pip w c (my_print_msg msg s2)))" for c msg
      by (rule kept_trans[OF kept_my_print_msg kept_run_pip])
    from kept_trans[OF k2 this] None m show ?thesis
      by (simp add: install_pip_packages_list_def Let_def)
  next
    case (Some e)
    with m k2 show ?thesis by (simp add: install_pip_packages_list_def Let_def)
  qed
qed

lemma kept_install_key_other:
  "ki \<noteq> ''assets'' \<Longrightarrow> ki \<noteq> ''asset'' \<Longrightarrow> kept s (snd (install_key w swenv sp ki s))"
  by (simp add: install_key_def kept_install_pip kept_install_files kept_print_line
      kept_my_print_msg kept_refl)

section \<open>Deferred assets\<close>

lemma notebook_kept: "kept s s' \<Longrightarrow> running_in_ws_jupyterlab s' = running_in_ws_jupyterlab s"
  by (simp add: kept_def env_kept_def running_in_ws_jupyterlab_def getenv_str_def)

lemma install_assets_deferred:
  assumes "map_of swenv ''assets'' = Some (PList as)"
    and "truthy (get swenv ''built_swenv'')" "\<not> has_key swenv ''assets_added_to_sdist''"
    and "\<not> running_in_ws_jupyterlab s"
  shows "install_assets w swenv s =
           (None, (my_print_msg msg_call_build (my_print_msg msg_dynamic_download s))
                    \<lparr>AssetsDownloadPending := PList as\<rparr>)"
  using assms by (simp add: install_assets_def get_def get_default_def has_key_def)

lemma deferred_state:
  "env_kept s ((my_print_msg m2 (my_print_msg m1 s))\<lparr>AssetsDownloadPending := v\<rparr>)"
  "sys_path ((my_print_msg m2 (my_print_msg m1 s))\<lparr>AssetsDownloadPending := v\<rparr>) = sys_path s"
  by (simp_all add: env_kept_def my_print_msg_def print_line_def Let_def)

lemma env_kept_notebook:
  "env_kept s s' \<Longrightarrow> running_in_ws_jupyterlab s' = running_in_ws_jupyterlab s"
  by (simp add: env_kept_def running_in_ws_jupyterlab_def getenv_str_def)

lemma install_key_assets:
  assumes "map_of swenv ''assets'' = Some (PList as)"
    and "truthy (get swenv ''built_swenv'')" "\<not> has_key swenv ''assets_added_to_sdist''"
    and "\<not> running_in_ws_jupyterlab s" and "ki = ''assets'' \<or> ki = ''asset''"
  shows "\<exists>s1. install_key w swenv sp ki s = (None, s1) \<and> AssetsDownloadPending s1 = PList as
              \<and> \<not> running_in_ws_jupyterlab s1"
proof -
  let ?s1 = "(my_print_msg msg_call_build (my_print_msg msg_dynamic_download s))
               \<lparr>AssetsDownloadPending := PList as\<rparr>"
  have "install_key w swenv sp ''assets'' s = install_assets w swenv s"
    by (simp add: install_key_def)
  moreover have "install_key w swenv sp ''asset'' s = install_assets w swenv s"
    by (simp add: install_key_def)
  ultimately have "install_key w swenv sp ki s = install_assets w swenv s"
    using assms(5) by blast
  then have a: "install_key w swenv sp ki s = (None, ?s1)"
    using install_assets_deferred[OF assms(1-4), of w] by simp
  have b: "AssetsDownloadPending ?s1 = PList as" by simp
  have c: "\<not> running_in_ws_jupyterlab ?s1"
    using env_kept_notebook[OF deferred_state(1)[where s = s and v = "PList as"
          and ?m1.0 = msg_dynamic_download and ?m2.0 = msg_call_build]]
      assms(4) by simp
  from a b c show ?thesis by (intro exI[of _ ?s1] conjI)
qed

lemma pending_stays:
  assumes "map_of swenv ''assets'' = Some (PList as)"
    and "truthy (get swenv ''built_swenv'')" "\<not> has_key swenv ''assets_added_to_sdist''"
  shows "\<not> running_in_ws_jupyterlab s \<Longrightarrow> AssetsDownloadPending s = PList as \<Longrightarrow>
         AssetsDownloadPending (snd (for_each (install_key w swenv sp) ks s)) = PList as"
proof (induction ks arbitrary: s)
  case Nil
  then show ?case by simp
next
  case (Cons k ks)
  obtain r s1 where st: "install_key w swenv sp k s = (r, s1)"
    by (cases "install_key w swenv sp k s")
  have inv: "\<not> running_in_ws_jupyterlab s1 \<and> AssetsDownloadPending s1 = PList as"
  proof (cases "k = ''assets'' \<or> k = ''asset''")
    case True
    from install_key_assets[OF assms Cons.prems(1) True, of w sp] st show ?thesis by auto
  next
    case False
    then have "kept s s1" using kept_install_key_other[of k s w swenv sp] st by simp
    with Cons.prems show ?thesis by (auto simp: kept_def dest: env_kept_notebook)
  qed
  show ?case
  proof (cases r)
    case None
    with st Cons.IH[of s1] inv show ?thesis by simp
  next
    case (Some e)
    with st inv show ?thesis by simp
  qed
qed

lemma pending_set:
  assumes "map_of swenv ''assets'' = Some (PList as)"
    and "truthy (get swenv ''built_swenv'')" "\<not> has_key swenv ''assets_added_to_sdist''"
  shows "\<not> running_in_ws_jupyterlab s \<Longrightarrow> ''assets'' \<in> set ks \<Longrightarrow>
         for_each (install_key w swenv sp) ks s = (None, s') \<Longrightarrow>
         AssetsDownloadPending s' = PList as"
proof (induction ks arbitrary: s)
  case Nil
  then show ?case by simp
next
  case (Cons k ks)
  obtain r s1 where st: "install_key w swenv sp k s = (r, s1)"
    by (cases "install_key w swenv sp k s")
  with Cons.prems(3) have r: "r = None" and rest: "for_each (install_key w swenv sp) ks s1 = (None, s')"
    by (auto split: option.splits)
  show ?case
  proof (cases "k = ''assets''")
    case True
    from install_key_assets[OF assms Cons.prems(1), of k w sp] True st
    have "AssetsDownloadPending s1 = PList as" "\<not> running_in_ws_jupyterlab s1" by auto
    from pending_stays[OF assms this(2,1), of w sp ks] rest show ?thesis by simp
  next
    case False
    have nb: "\<not> running_in_ws_jupyterlab s1"
    proof (cases "k = ''asset''")
      case True
      from install_key_assets[OF assms Cons.prems(1), of k w sp] True st show ?thesis by auto
    next
      case F2: False
      with False have "kept s s1" using kept_install_key_other[of k s w swenv sp] st by simp
      with Cons.prems(1) show ?thesis by (auto simp: kept_def dest: env_kept_notebook)
    qed
    from False Cons.prems(2) have "''assets'' \<in> set ks" by simp
    from Cons.IH[OF nb this rest] show ?thesis .
  qed
qed

lemma assets_key_listed: "map_of swenv ''assets'' = Some v \<Longrightarrow> ''assets'' \<in> set (map fst swenv)"
  by (auto dest!: map_of_SomeD intro: rev_image_eqI)

lemma my_print_msg_fields:
  "getenv_set (my_print_msg m s) k = getenv_set s k"
  "getenv_str (my_print_msg m s) k = getenv_str s k"
  "AssetsDownloadPending (my_print_msg m s) = AssetsDownloadPending s"
  "downloaded (my_print_msg m s) = downloaded s"
  "sys_path (my_print_msg m s) = sys_path s"
  by (simp_all add: my_print_msg_def print_line_def getenv_set_def getenv_str_def Let_def)

lemma download_asset_ok:
  assumes "download_asset w conn (pkg_dir w) x s = (None, s')"
  shows "downloaded s' = downloaded s @ [asset_target w x]"
proof (cases x)
  case (PDict d)
  let ?ty = "get_default d ''asset_type'' (get d ''type'')"
  from assms PDict have tn: "truthy ?ty \<and> truthy (get d ''name'')"
    by (simp add: download_asset_def Let_def split: if_splits)
  from assms PDict tn obtain asset where
    a: "cpd_lookup_asset w conn ?ty (get d ''name'') = Inr asset" "truthy asset"
    by (simp add: download_asset_def Let_def split: sum.splits if_splits)
  from assms PDict tn a obtain n where n: "get d ''name'' = PStr n"
    by (simp add: download_asset_def Let_def split: pyval.splits)
  let ?path = "get_default d ''path'' (PStr (n @ ''.py''))"
  from assms PDict tn a n obtain p where p: "path_join_val (pkg_dir w) ?path = Inr p"
    by (simp add: download_asset_def Let_def split: sum.splits)
  from assms PDict tn a n p have "downloaded s' = downloaded s @ [path_str p]"
    by (auto simp: download_asset_def Let_def my_print_msg_fields split: option.splits)
  with PDict n p show ?thesis by (simp add: asset_target_def)
qed (use assms in \<open>simp_all add: download_asset_def\<close>)

lemma download_each_ok:
  "for_each (download_asset w conn (pkg_dir w)) xs s = (None, s') \<Longrightarrow>
   downloaded s' = downloaded s @ map (asset_target w) xs"
proof (induction xs arbitrary: s)
  case Nil
  then show ?case by simp
next
  case (Cons x xs)
  obtain r s1 where st: "download_asset w conn (pkg_dir w) x s = (r, s1)"
    by (cases "download_asset w conn (pkg_dir w) x s")
  with Cons.prems have r: "r = None" and rest: "for_each (download_asset w conn (pkg_dir w)) xs s1 = (None, s')"
    by (auto split: option.splits)
  from download_asset_ok[of w conn x s s1] st r Cons.IH[OF rest] show ?case by simp
qed

lemma download_pending_empty:
  "\<not> truthy (AssetsDownloadPending t) \<Longrightarrow>
   download_pending_assets w t = (None, print_line ''No assets to download'' t)"
  by (simp add: download_pending_assets_def)

lemma download_pending_no_token:
  assumes "AssetsDownloadPending t = PList as" "as \<noteq> []" "\<not> getenv_set t ''USER_ACCESS_TOKEN''"
  shows "download_pending_assets w t =
           (Some (AssertionError ''download assets: missing access token''),
            my_print_msg (''Downloading assets '' @ py_str w (PList as)) t)"
  using assms by (simp add: download_pending_assets_def is_list_def Let_def my_print_msg_fields)

lemma download_pending_no_context:
  assumes "AssetsDownloadPending t = PList as" "as \<noteq> []" "getenv_set t ''USER_ACCESS_TOKEN''"
    "\<not> getenv_set t ''SPACE_ID''" "\<not> getenv_set t ''PROJECT_ID''"
  shows "download_pending_assets w t =
           (Some (PyException ''download assets: missing space id and project id''),
            my_print_msg (''Downloading assets '' @ py_str w (PList as)) t)"
  using assms by (simp add: download_pending_assets_def is_list_def Let_def my_print_msg_fields)

lemma download_pending_run:
  assumes "AssetsDownloadPending t = PList as" "as \<noteq> []" "getenv_set t ''USER_ACCESS_TOKEN''"
    "getenv_set t ''SPACE_ID'' \<or> getenv_set t ''PROJECT_ID''"
  shows "download_pending_assets w t =
           (case for_each (download_asset w (cpd_conn_of t) (pkg_dir w)) as
                   (my_print_msg (''Downloading assets '' @ py_str w (PList as)) t) of
              (Some e, t2) \<Rightarrow> (Some e, t2)
            | (None, t2) \<Rightarrow> (None, t2\<lparr>AssetsDownloadPending := PList []\<rparr>))"
  using assms
  by (auto simp: download_pending_assets_def is_list_def Let_def my_print_msg_fields
      download_assets_def cpd_conn_of_def)

lemma download_pending_success:
  assumes "AssetsDownloadPending t = PList as" "as \<noteq> []"
    and "download_pending_assets w t = (None, t')"
  shows "AssetsDownloadPending t' = PList [] \<and> downloaded t' = downloaded t @ map (asset_target w) as
       \<and> getenv_set t ''USER_ACCESS_TOKEN''
       \<and> (getenv_set t ''SPACE_ID'' \<or> getenv_set t ''PROJECT_ID'')"
proof -
  have tok: "getenv_set t ''USER_ACCESS_TOKEN''"
    using download_pending_no_token[OF assms(1,2), of w] assms(3) by auto
  have ctx: "getenv_set t ''SPACE_ID'' \<or> getenv_set t ''PROJECT_ID''"
    using download_pending_no_context[OF assms(1,2) tok, of w] assms(3) by auto
  let ?t1 = "my_print_msg (''Downloading assets '' @ py_str w (PList as)) t"
  obtain r t2 where fe: "for_each (download_asset w (cpd_conn_of t) (pkg_dir w)) as ?t1 = (r, t2)"
    by (cases "for_each (download_asset w (cpd_conn_of t) (pkg_dir w)) as ?t1")
  with download_pending_run[OF assms(1,2) tok ctx, of w] assms(3)
  have r: "r = None" and t': "t' = t2\<lparr>AssetsDownloadPending := PList []\<rparr>"
    by (auto split: option.splits)
  from download_each_ok[of w "cpd_conn_of t" as ?t1 t2] fe r
  have "downloaded t2 = downloaded t @ map (asset_target w) as"
    by (simp add: my_print_msg_fields)
  with t' tok ctx show ?thesis by simp
qed

text \<open>The assets branch, the guards of the download call, and the files it records.\<close>

lemma deferred_asset_download_basic:
  assumes "map_of swenv ''assets'' = Some (PList as)" "as \<noteq> []"
    and "truthy (get swenv ''built_swenv'')" "\<not> has_key swenv ''assets_added_to_sdist''"
    and "\<not> running_in_ws_jupyterlab s"
  shows "install_assets w swenv s =
           (None, (my_print_msg msg_call_build (my_print_msg msg_dynamic_download s))
                    \<lparr>AssetsDownloadPending := PList as\<rparr>)
       \<and> sys_path (snd (install_assets w swenv s)) = sys_path s
       \<and> (\<forall>sp s'. install_swenv w swenv sp s = (None, s') \<longrightarrow> AssetsDownloadPending s' = PList as)
       \<and> (\<forall>t. \<not> truthy (AssetsDownloadPending t) \<longrightarrow>
              download_pending_assets w t = (None, print_line ''No assets to download'' t))
       \<and> (\<forall>t. AssetsDownloadPending t = PList as \<and> \<not> getenv_set t ''USER_ACCESS_TOKEN'' \<longrightarrow>
              fst (download_pending_assets w t)
                = Some (AssertionError ''download assets: missing access token''))
       \<and> (\<forall>t. AssetsDownloadPending t = PList as \<and> getenv_set t ''USER_ACCESS_TOKEN''
                \<and> \<not> getenv_set t ''SPACE_ID'' \<and> \<not> getenv_set t ''PROJECT_ID'' \<longrightarrow>
              fst (download_pending_assets w t)
                = Some (PyException ''download assets: missing space id and project id''))
       \<and> (\<forall>t. AssetsDownloadPending t = PList as \<and> getenv_set t ''USER_ACCESS_TOKEN''
                \<and> (getenv_set t ''SPACE_ID'' \<or> getenv_set t ''PROJECT_ID'') \<longrightarrow>
              download_pending_assets w t =
                (case for_each (download_asset w (cpd_conn_of t) (pkg_dir w)) as
                        (my_print_msg (''Downloading assets '' @ py_str w (PList as)) t) of
                   (Some e, t2) \<Rightarrow> (Some e, t2)
                 | (None, t2) \<Rightarrow> (None, t2\<lparr>AssetsDownloadPending := PList []\<rparr>)))
       \<and> (\<forall>t. getenv_set t ''SPACE_ID'' \<longrightarrow>
              cpd_conn_of t = [(''space_id'', PStr (getenv_str t ''SPACE_ID''))])
       \<and> (\<forall>t t'. AssetsDownloadPending t = PList as \<and> download_pending_assets w t = (None, t') \<longrightarrow>
              AssetsDownloadPending t' = PList []
              \<and> downloaded t' = downloaded t @ map (asset_target w) as)"
proof -
  note d = assms(1,3,4)
  have A: "install_assets w swenv s =
           (None, (my_print_msg msg_call_build (my_print_msg msg_dynamic_download s))
                    \<lparr>AssetsDownloadPending := PList as\<rparr>)"
    by (rule install_assets_deferred[OF d assms(5)])
  have B: "sys_path (snd (install_assets w swenv s)) = sys_path s"
    by (simp add: A deferred_state(2))
  have C: "AssetsDownloadPending s' = PList as" if "install_swenv w swenv sp s = (None, s')" for sp s'
    using pending_set[OF d assms(5) assets_key_listed[OF assms(1)], of w sp s'] that
    by (simp add: install_swenv_def)
  have D: "fst (download_pending_assets w t) = Some (AssertionError ''download assets: missing access token'')"
    if "AssetsDownloadPending t = PList as" "\<not> getenv_set t ''USER_ACCESS_TOKEN''" for t
    using download_pending_no_token[OF that(1) assms(2) that(2), of w] by simp
  have E: "fst (download_pending_assets w t)
             = Some (PyException ''download assets: missing space id and project id'')"
    if "AssetsDownloadPending t = PList as" "getenv_set t ''USER_ACCESS_TOKEN''"
       "\<not> getenv_set t ''SPACE_ID''" "\<not> getenv_set t ''PROJECT_ID''" for t
    using download_pending_no_context[OF that(1) assms(2) that(2,3,4), of w] by simp
  have F: "download_pending_assets w t =
                (case for_each (download_asset w (cpd_conn_of t) (pkg_dir w)) as
                        (my_print_msg (''Downloading assets '' @ py_str w (PList as)) t) of
                   (Some e, t2) \<Rightarrow> (Some e, t2)
                 | (None, t2) \<Rightarrow> (None, t2\<lparr>AssetsDownloadPending := PList []\<rparr>))"
    if "AssetsDownloadPending t = PList as" "getenv_set t ''USER_ACCESS_TOKEN''"
       "getenv_set t ''SPACE_ID'' \<or> getenv_set t ''PROJECT_ID''" for t
    by (rule download_pending_run[OF that(1) assms(2) that(2,3)])
  have G: "AssetsDownloadPending t' = PList [] \<and> downloaded t' = downloaded t @ map (asset_target w) as"
    if "AssetsDownloadPending t = PList as" "download_pending_assets w t = (None, t')" for t t'
    using download_pending_success[OF that(1) assms(2) that(2)] by simp
  have H: "cpd_conn_of t = [(''space_id'', PStr (getenv_str t ''SPACE_ID''))]"
    if "getenv_set t ''SPACE_ID''" for t
    using that by (simp add: cpd_conn_of_def)
  show ?thesis
    apply (intro conjI allI impI)
             apply (rule A)
            apply (rule B)
           apply (erule C)
          apply (erule download_pending_empty)
         apply (erule conjE, erule (1) D)
        apply (elim conjE, erule (3) E)
       apply (elim conjE, erule (2) F)
      apply (erule H)
     apply (elim conjE, drule (1) G, erule conjE, assumption)
    apply (elim conjE, drule (1) G, erule conjE, assumption)
    done
qed

lemma download_asset_fetched:
  assumes "download_asset w conn (pkg_dir w) x s = (None, s')"
  shows "\<exists>d n asset. x = PDict d \<and> get d ''name'' = PStr n
           \<and> cpd_lookup_asset w conn (get_default d ''asset_type'' (get d ''type'')) (PStr n)
               = Inr asset
           \<and> truthy asset
           \<and> cpd_download_asset_to_file w conn asset (asset_target w x) = None"
proof (cases x)
  case (PDict d)
  let ?ty = "get_default d ''asset_type'' (get d ''type'')"
  from assms PDict have tn: "truthy ?ty \<and> truthy (get d ''name'')"
    by (simp add: download_asset_def Let_def split: if_splits)
  from assms PDict tn obtain asset where
    a: "cpd_lookup_asset w conn ?ty (get d ''name'') = Inr asset" "truthy asset"
    by (simp add: download_asset_def Let_def split: sum.splits if_splits)
  from assms PDict tn a obtain n where n: "get d ''name'' = PStr n"
    by (simp add: download_asset_def Let_def split: pyval.splits)
  let ?path = "get_default d ''path'' (PStr (n @ ''.py''))"
  from assms PDict tn a n obtain p where p: "path_join_val (pkg_dir w) ?path = Inr p"
    by (simp add: download_asset_def Let_def split: sum.splits)
  from assms PDict tn a n p
  have dl: "cpd_download_asset_to_file w conn asset (path_str p) = None"
    by (simp add: download_asset_def Let_def split: option.splits)
  have "asset_target w x = path_str p"
    using PDict n p by (simp add: asset_target_def)
  with PDict n a dl show ?thesis by simp
qed (use assms in \<open>simp_all add: download_asset_def\<close>)

lemma download_each_fetched:
  "for_each (download_asset w conn (pkg_dir w)) xs s = (None, s') \<Longrightarrow> x \<in> set xs \<Longrightarrow>
   \<exists>d n asset. x = PDict d \<and> get d ''name'' = PStr n
      \<and> cpd_lookup_asset w conn (get_default d ''asset_type'' (get d ''type'')) (PStr n)
          = Inr asset
      \<and> truthy asset
      \<and> cpd_download_asset_to_file w conn asset (asset_target w x) = None"
proof (induction xs arbitrary: s)
  case Nil
  then show ?case by simp
next
  case (Cons y ys)
  obtain r s1 where st: "download_asset w conn (pkg_dir w) y s = (r, s1)"
    by (cases "download_asset w conn (pkg_dir w) y s")
  with Cons.prems(1) have r: "r = None"
    and rest: "for_each (download_asset w conn (pkg_dir w)) ys s1 = (None, s')"
    by (auto split: option.splits)
  show ?case
  proof (cases "x = y")
    case True
    with st r show ?thesis using download_asset_fetched[of w conn y s s1] by simp
  next
    case False
    with Cons.prems(2) have "x \<in> set ys" by simp
    from Cons.IH[OF rest this] show ?thesis .
  qed
qed

lemma download_pending_fetched:
  assumes "AssetsDownloadPending t = PList as" "as \<noteq> []"
    and "download_pending_assets w t = (None, t')" "x \<in> set as"
  shows "\<exists>d n asset. x = PDict d \<and> get d ''name'' = PStr n
      \<and> cpd_lookup_asset w (cpd_conn_of t) (get_default d ''asset_type'' (get d ''type'')) (PStr n)
          = Inr asset
      \<and> truthy asset
      \<and> cpd_download_asset_to_file w (cpd_conn_of t) asset (asset_target w x) = None"
proof -
  from download_pending_success[OF assms(1,2,3)]
  have tok: "getenv_set t ''USER_ACCESS_TOKEN''"
    and ctx: "getenv_set t ''SPACE_ID'' \<or> getenv_set t ''PROJECT_ID''" by simp_all
  let ?t1 = "my_print_msg (''Downloading assets '' @ py_str w (PList as)) t"
  obtain r t2 where fe: "for_each (download_asset w (cpd_conn_of t) (pkg_dir w)) as ?t1 = (r, t2)"
    by (cases "for_each (download_asset w (cpd_conn_of t) (pkg_dir w)) as ?t1")
  with download_pending_run[OF assms(1,2) tok ctx, of w] assms(3) have "r = None"
    by (auto split: option.splits)
  with fe download_each_fetched[of w "cpd_conn_of t" as ?t1 t2 x] assms(4) show ?thesis by simp
qed

lemma cpd_conn_of_project:
  "\<not> getenv_set t ''SPACE_ID'' \<Longrightarrow>
   cpd_conn_of t = [(''project_id'', PStr (getenv_str t ''PROJECT_ID''))]"
  by (simp add: cpd_conn_of_def)

text \<open>
  C3. For a document whose \<^verbatim>\<open>assets\<close> is a non-empty list, whose \<^verbatim>\<open>built_swenv\<close> is set
  and whose \<^verbatim>\<open>assets_added_to_sdist\<close> is absent, outside the notebook: the assets branch
  of the installer leaves the search path as it is and stores the asset list as pending,
  and so does every installation that returns. \<^verbatim>\<open>download_pending_assets\<close> with nothing
  pending only prints a line; with the list pending it fails with the assertion
  \<^verbatim>\<open>download assets: missing access token\<close> when no token is set, and with an exception
  when neither identifier is set; otherwise it downloads with the space identifier when
  that is set and with the project identifier when only that is set. A call that returns
  had a token and an identifier; for every pending asset the lookup in the asset store
  gave an asset and the download of that asset to its file under the module's directory
  succeeded; and the pending list is left empty.
\<close>

theorem deferred_asset_download:
  assumes "map_of swenv ''assets'' = Some (PList as)" "as \<noteq> []"
    and "truthy (get swenv ''built_swenv'')" "\<not> has_key swenv ''assets_added_to_sdist''"
    and "\<not> running_in_ws_jupyterlab s"
  shows "install_assets w swenv s =
           (None, (my_print_msg msg_call_build (my_print_msg msg_dynamic_download s))
                    \<lparr>AssetsDownloadPending := PList as\<rparr>)
       \<and> sys_path (snd (install_assets w swenv s)) = sys_path s
       \<and> (\<forall>sp s'. install_swenv w swenv sp s = (None, s') \<longrightarrow> AssetsDownloadPending s' = PList as)
       \<and> (\<forall>t. \<not> truthy (AssetsDownloadPending t) \<longrightarrow>
              download_pending_assets w t = (None, print_line ''No assets to download'' t))
       \<and> (\<forall>t. AssetsDownloadPending t = PList as \<and> \<not> getenv_set t ''USER_ACCESS_TOKEN'' \<longrightarrow>
              fst (download_pending_assets w t)
                = Some (AssertionError ''download assets: missing access token''))
       \<and> (\<forall>t. AssetsDownloadPending t = PList as \<and> getenv_set t ''USER_ACCESS_TOKEN''
                \<and> \<not> getenv_set t ''SPACE_ID'' \<and> \<not> getenv_set t ''PROJECT_ID'' \<longrightarrow>
              fst (download_pending_assets w t)
                = Some (PyException ''download assets: missing space id and project id''))
       \<and> (\<forall>t. AssetsDownloadPending t = PList as \<and> getenv_set t ''USER_ACCESS_TOKEN''
                \<and> (getenv_set t ''SPACE_ID'' \<or> getenv_set t ''PROJECT_ID'') \<longrightarrow>
              download_pending_assets w t =
                (case for_each (download_asset w (cpd_conn_of t) (pkg_dir w)) as
                        (my_print_msg (''Downloading assets '' @ py_str w (PList as)) t) of
                   (Some e, t2) \<Rightarrow> (Some e, t2)
                 | (None, t2) \<Rightarrow> (None, t2\<lparr>AssetsDownloadPending := PList []\<rparr>)))
       \<and> (\<forall>t. getenv_set t ''SPACE_ID'' \<longrightarrow>
              cpd_conn_of t = [(''space_id'', PStr (getenv_str t ''SPACE_ID''))])
       \<and> (\<forall>t t'. AssetsDownloadPending t = PList as \<and> download_pending_assets w t = (None, t') \<longrightarrow>
              AssetsDownloadPending t' = PList []
              \<and> downloaded t' = downloaded t @ map (asset_target w) as)
       \<and> (\<forall>t. \<not> getenv_set t ''SPACE_ID'' \<and> getenv_set t ''PROJECT_ID'' \<longrightarrow>
              cpd_conn_of t = [(''project_id'', PStr (getenv_str t ''PROJECT_ID''))])
       \<and> (\<forall>t t' x. AssetsDownloadPending t = PList as \<and> download_pending_assets w t = (None, t')
                \<and> x \<in> set as \<longrightarrow>
              (\<exists>d n asset. x = PDict d \<and> get d ''name'' = PStr n
                 \<and> cpd_lookup_asset w (cpd_conn_of t)
                      (get_default d ''asset_type'' (get d ''type'')) (PStr n) = Inr asset
                 \<and> truthy asset
                 \<and> cpd_download_asset_to_file w (cpd_conn_of t) asset (asset_target w x) = None))
       \<and> (\<forall>t t'. AssetsDownloadPending t = PList as \<and> download_pending_assets w t = (None, t') \<longrightarrow>
              getenv_set t ''USER_ACCESS_TOKEN''
              \<and> (getenv_set t ''SPACE_ID'' \<or> getenv_set t ''PROJECT_ID''))"
proof -
  note old = deferred_asset_download_basic[OF assms, of w]
  have P: "cpd_conn_of t = [(''project_id'', PStr (getenv_str t ''PROJECT_ID''))]"
    if "\<not> getenv_set t ''SPACE_ID'' \<and> getenv_set t ''PROJECT_ID''" for t
    using that by (simp add: cpd_conn_of_project)
  have F: "\<exists>d n asset. x = PDict d \<and> get d ''name'' = PStr n
                 \<and> cpd_lookup_asset w (cpd_conn_of t)
                      (get_default d ''asset_type'' (get d ''type'')) (PStr n) = Inr asset
                 \<and> truthy asset
                 \<and> cpd_download_asset_to_file w (cpd_conn_of t) asset (asset_target w x) = None"
    if "AssetsDownloadPending t = PList as \<and> download_pending_assets w t = (None, t')
                \<and> x \<in> set as" for t t' x
    using download_pending_fetched[OF _ assms(2), of t w t' x] that by blast
  have G: "getenv_set t ''USER_ACCESS_TOKEN''
              \<and> (getenv_set t ''SPACE_ID'' \<or> getenv_set t ''PROJECT_ID'')"
    if "AssetsDownloadPending t = PList as \<and> download_pending_assets w t = (None, t')" for t t'
    using download_pending_success[OF _ assms(2), of t w t'] that by blast
  have n1: "\<forall>t. \<not> getenv_set t ''SPACE_ID'' \<and> getenv_set t ''PROJECT_ID'' \<longrightarrow>
              cpd_conn_of t = [(''project_id'', PStr (getenv_str t ''PROJECT_ID''))]"
    using P by blast
  have n2: "\<forall>t t' x. AssetsDownloadPending t = PList as \<and> download_pending_assets w t = (None, t')
                \<and> x \<in> set as \<longrightarrow>
              (\<exists>d n asset. x = PDict d \<and> get d ''name'' = PStr n
                 \<and> cpd_lookup_asset w (cpd_conn_of t)
                      (get_default d ''asset_type'' (get d ''type'')) (PStr n) = Inr asset
                 \<and> truthy asset
                 \<and> cpd_download_asset_to_file w (cpd_conn_of t) asset (asset_target w x) = None)"
    by (intro allI impI) (erule F)
  have n3: "\<forall>t t'. AssetsDownloadPending t = PList as \<and> download_pending_assets w t = (None, t') \<longrightarrow>
              getenv_set t ''USER_ACCESS_TOKEN''
              \<and> (getenv_set t ''SPACE_ID'' \<or> getenv_set t ''PROJECT_ID'')"
    by (intro allI impI) (erule G)
  show ?thesis
    apply (intro conjI)
               apply (rule old[THEN conjunct1])
              apply (rule old[THEN conjunct2, THEN conjunct1])
             apply (rule old[THEN conjunct2, THEN conjunct2, THEN conjunct1])
            apply (rule old[THEN conjunct2, THEN conjunct2, THEN conjunct2, THEN conjunct1])
           apply (rule old[THEN conjunct2, THEN conjunct2, THEN conjunct2, THEN conjunct2,
                  THEN conjunct1])
          apply (rule old[THEN conjunct2, THEN conjunct2, THEN conjunct2, THEN conjunct2,
                  THEN conjunct2, THEN conjunct1])
         apply (rule old[THEN conjunct2, THEN conjunct2, THEN conjunct2, THEN conjunct2,
                  THEN conjunct2, THEN conjunct2, THEN conjunct1])
        apply (rule old[THEN conjunct2, THEN conjunct2, THEN conjunct2, THEN conjunct2,
                  THEN conjunct2, THEN conjunct2, THEN conjunct2, THEN conjunct1])
       apply (rule old[THEN conjunct2, THEN conjunct2, THEN conjunct2, THEN conjunct2,
                  THEN conjunct2, THEN conjunct2, THEN conjunct2, THEN conjunct2])
      apply (rule n1)
     apply (rule n2)
    apply (rule n3)
    done
qed

theorem deferred_asset_download_witness:
  "map_of doc_deferred ''assets'' = Some (PList [asset_foo])
   \<and> truthy (get doc_deferred ''built_swenv'')
   \<and> \<not> has_key doc_deferred ''assets_added_to_sdist''
   \<and> \<not> running_in_ws_jupyterlab state0
   \<and> fst (install_swenv world0 doc_deferred base0 state0) = None
   \<and> AssetsDownloadPending state_pending = PList [asset_foo]
   \<and> sys_path state_pending = sys_path state0
   \<and> download_pending_assets world0 state0 = (None, print_line ''No assets to download'' state0)
   \<and> fst (download_pending_assets world0 state_pending)
       = Some (AssertionError ''download assets: missing access token'')
   \<and> fst (download_pending_assets world0 (state_pending\<lparr>environ := env_token\<rparr>))
       = Some (PyException ''download assets: missing space id and project id'')
   \<and> cpd_conn_of (state_pending\<lparr>environ := env_token_space_project\<rparr>)
       = [(''space_id'', PStr ''space1'')]
   \<and> fst (download_pending_assets world0 (state_pending\<lparr>environ := env_token_space_project\<rparr>))
       = None
   \<and> AssetsDownloadPending
         (snd (download_pending_assets world0 (state_pending\<lparr>environ := env_token_space_project\<rparr>)))
       = PList []
   \<and> downloaded
         (snd (download_pending_assets world0 (state_pending\<lparr>environ := env_token_space_project\<rparr>)))
       = [''/pkg/foo.py'']
   \<and> cpd_conn_of (state_pending\<lparr>environ := env_token_project\<rparr>)
       = [(''project_id'', PStr ''project1'')]
   \<and> fst (download_pending_assets world0 (state_pending\<lparr>environ := env_token_project\<rparr>))
       = None
   \<and> asset_target world0 asset_foo = ''/pkg/foo.py''
   \<and> cpd_lookup_asset world0 [(''space_id'', PStr ''space1'')] (PStr ''script'') (PStr ''foo'')
       = Inr (PStr ''asset'')
   \<and> cpd_download_asset_to_file world0 [(''space_id'', PStr ''space1'')] (PStr ''asset'')
         ''/pkg/foo.py'' = None"
proof -
  have h1: "map_of doc_deferred ''assets'' = Some (PList [asset_foo])"
    by (simp add: doc_deferred_def asset_foo_def)
  have h2: "[asset_foo] \<noteq> []" by simp
  have h3: "truthy (get doc_deferred ''built_swenv'')"
    by (simp add: doc_deferred_def get_def get_default_def)
  have h4: "\<not> has_key doc_deferred ''assets_added_to_sdist''"
    by (simp add: doc_deferred_def has_key_def)
  have h5: "\<not> running_in_ws_jupyterlab state0"
    by (simp add: running_in_ws_jupyterlab_def state0_def getenv_str_def startswith_def)
  have run: "install_swenv world0 doc_deferred base0 state0 =
      (None, state0\<lparr>PkgMsgs := [msg_dynamic_download, msg_call_build,
                 ''swenv tag '' @ quote @ ''built_swenv'' @ quote
                   @ '' not recognized, ignoring the value ...''],
               AssetsDownloadPending := PList [asset_foo]\<rparr>)"
    by (simp add: doc_deferred_def asset_foo_def world0_def state0_def base0_def eval_install
        eval_download eval_paths)
  note T = deferred_asset_download[OF h1 h2 h3 h4 h5, of world0]
  from T run have pend: "AssetsDownloadPending state_pending = PList [asset_foo]"
    by (simp add: state_pending_def)
  have sp: "state_pending = state0\<lparr>PkgMsgs := [msg_dynamic_download, msg_call_build,
                 ''swenv tag '' @ quote @ ''built_swenv'' @ quote
                   @ '' not recognized, ignoring the value ...''],
               AssetsDownloadPending := PList [asset_foo]\<rparr>"
    by (simp add: state_pending_def run)
  have e0: "download_pending_assets world0 state0 = (None, print_line ''No assets to download'' state0)"
    by (simp add: download_pending_assets_def state0_def)
  have e1: "fst (download_pending_assets world0 state_pending)
       = Some (AssertionError ''download assets: missing access token'')"
    by (simp add: sp asset_foo_def state0_def eval_download my_print_msg_def getenv_set_def
        print_line_def)
  have e2: "fst (download_pending_assets world0 (state_pending\<lparr>environ := env_token\<rparr>))
       = Some (PyException ''download assets: missing space id and project id'')"
    by (simp add: sp asset_foo_def state0_def env_token_def eval_download my_print_msg_def
        getenv_set_def print_line_def)
  have e3: "cpd_conn_of (state_pending\<lparr>environ := env_token_space_project\<rparr>)
       = [(''space_id'', PStr ''space1'')]"
    by (simp add: cpd_conn_of_def env_token_space_project_def getenv_set_def getenv_str_def)
  have e4: "download_pending_assets world0 (state_pending\<lparr>environ := env_token_space_project\<rparr>)
     = (None, state_pending\<lparr>environ := env_token_space_project,
          PkgMsgs := PkgMsgs state_pending @ [''Downloading assets <repr>'', ''adding script foo.py''],
          downloaded := [''/pkg/foo.py''], AssetsDownloadPending := PList []\<rparr>)"
    by (simp add: sp asset_foo_def state0_def world0_def env_token_space_project_def eval_download
        my_print_msg_def getenv_set_def getenv_str_def print_line_def py_str_def get_def
        get_default_def eval_paths)
  have e5: "cpd_conn_of (state_pending\<lparr>environ := env_token_project\<rparr>)
       = [(''project_id'', PStr ''project1'')]"
    by (simp add: cpd_conn_of_def env_token_project_def getenv_set_def getenv_str_def)
  have e6: "fst (download_pending_assets world0 (state_pending\<lparr>environ := env_token_project\<rparr>))
       = None"
    by (simp add: sp asset_foo_def state0_def world0_def env_token_project_def eval_download
        my_print_msg_def getenv_set_def getenv_str_def print_line_def py_str_def get_def
        get_default_def eval_paths)
  have e7: "asset_target world0 asset_foo = ''/pkg/foo.py''"
    by (simp add: asset_target_def asset_foo_def world0_def get_def get_default_def eval_paths)
  have e8: "cpd_lookup_asset world0 [(''space_id'', PStr ''space1'')] (PStr ''script'') (PStr ''foo'')
       = Inr (PStr ''asset'')"
    "cpd_download_asset_to_file world0 [(''space_id'', PStr ''space1'')] (PStr ''asset'')
         ''/pkg/foo.py'' = None"
    by (simp_all add: world0_def)
  from h1 h3 h4 h5 run pend e0 e1 e2 e3 e4 e5 e6 e7 e8 show ?thesis
    by (simp add: sp state0_def)
qed

end
